theory Spec2Isabelle
  imports Complex_Main "HOL-Library.Word" "HOL-Library.Multiset"
begin

section \<open>JavaScript strings\<close>

text \<open>
  A JavaScript string is a sequence of UTF-16 code units and \<open>length\<close> counts code units.
  String literals of the sources are written \<open>js ''...''\<close>.
\<close>

type_synonym code_unit = "16 word"

type_synonym jsstring = "code_unit list"

definition js :: "string \<Rightarrow> jsstring" where
  "js s = map of_char s"

text \<open>
  \<open>String.prototype.trim\<close> removes the WhiteSpace and LineTerminator code points of
  ECMAScript from both ends; all of them are single code units.
\<close>

definition isWhiteSpace :: "code_unit \<Rightarrow> bool" where
  "isWhiteSpace c =
     (c \<in> set [0x09, 0x0A, 0x0B, 0x0C, 0x0D, 0x20, 0xA0, 0x1680, 0x2028, 0x2029,
                0x202F, 0x205F, 0x3000, 0xFEFF]
      \<or> (0x2000 \<le> c \<and> c \<le> 0x200A))"

definition trim :: "jsstring \<Rightarrow> jsstring" where
  "trim s = rev (dropWhile isWhiteSpace (rev (dropWhile isWhiteSpace s)))"

text \<open>
  \<open>escapeHtml\<close> of the modal search widget assigns the text to \<open>textContent\<close> of a fresh
  \<open>div\<close> and reads \<open>innerHTML\<close> back. The element then holds one text node, and the HTML
  serialisation of a text node replaces \<open>&\<close>, the no-break space, \<open><\<close> and \<open>>\<close> by
  their character references and copies every other code unit.
\<close>

definition escapeUnit :: "code_unit \<Rightarrow> jsstring" where
  "escapeUnit c =
     (if c = 0x26 then js ''&amp;''
      else if c = 0xA0 then js ''&nbsp;''
      else if c = 0x3C then js ''&lt;''
      else if c = 0x3E then js ''&gt;''
      else [c])"

definition escapeHtml :: "jsstring \<Rightarrow> jsstring" where
  "escapeHtml text = concat (map escapeUnit text)"

text \<open>
  What a browser shows for escaped text: the four character references that
  \<open>escapeHtml\<close> produces are read back as the characters they name. This function is the
  yardstick for "appears as text"; it is not part of the widget.
\<close>

fun decodeText :: "jsstring \<Rightarrow> jsstring" where
  "decodeText [] = []"
| "decodeText (c # cs) =
     (if c = 0x26 \<and> take 4 cs = js ''amp;'' then 0x26 # decodeText (drop 4 cs)
      else if c = 0x26 \<and> take 5 cs = js ''nbsp;'' then 0xA0 # decodeText (drop 5 cs)
      else if c = 0x26 \<and> take 3 cs = js ''lt;'' then 0x3C # decodeText (drop 3 cs)
      else if c = 0x26 \<and> take 3 cs = js ''gt;'' then 0x3E # decodeText (drop 3 cs)
      else c # decodeText cs)"

section \<open>The search endpoint's payload\<close>

text \<open>
  The JSON answer of \<open>/search/suggest.json\<close>. Both widgets read
  \<open>data.resources?.results || {}\<close> and then \<open>.products || []\<close>, \<open>.articles || []\<close>,
  \<open>.pages || []\<close>: \<open>None\<close> is a property that is absent.
\<close>

record summary =
  title :: jsstring
  url :: jsstring

record result_set =
  products :: "summary list option"
  articles :: "summary list option"
  pages :: "summary list option"

record payload =
  resources_results :: "result_set option"

definition or_empty :: "'a list option \<Rightarrow> 'a list" where
  "or_empty v = (case v of None \<Rightarrow> [] | Some xs \<Rightarrow> xs)"

definition products_of :: "payload \<Rightarrow> summary list" where
  "products_of data =
     (case resources_results data of None \<Rightarrow> [] | Some r \<Rightarrow> or_empty (products r))"

definition articles_of :: "payload \<Rightarrow> summary list" where
  "articles_of data =
     (case resources_results data of None \<Rightarrow> [] | Some r \<Rightarrow> or_empty (articles r))"

definition pages_of :: "payload \<Rightarrow> summary list" where
  "pages_of data =
     (case resources_results data of None \<Rightarrow> [] | Some r \<Rightarrow> or_empty (pages r))"

text \<open>
  Both widgets keep their cache in an object created by \<open>{}\<close> and test
  \<open>if (this.cache[query])\<close>. A payload is an object, hence truthy, so for a key that the
  cache owns the test is one of presence. A key that the cache does not own is looked up
  in \<open>Object.prototype\<close>; what is found there is a function or an object, which is truthy
  and has no \<open>resources\<close> property: it reads like a payload without results.
\<close>

definition Object_prototype_keys :: "jsstring list" where
  "Object_prototype_keys =
     map js [''constructor'', ''__defineGetter__'', ''__defineSetter__'', ''hasOwnProperty'',
             ''__lookupGetter__'', ''__lookupSetter__'', ''isPrototypeOf'',
             ''propertyIsEnumerable'', ''toString'', ''valueOf'', ''__proto__'',
             ''toLocaleString'']"

definition own_or_inherited :: "(jsstring \<rightharpoonup> payload) \<Rightarrow> jsstring \<Rightarrow> payload option" where
  "own_or_inherited obj k =
     (case obj k of
        Some data \<Rightarrow> Some data
      | None \<Rightarrow> if k \<in> set Object_prototype_keys then Some \<lparr>resources_results = None\<rparr> else None)"

section \<open>Requests and their cancellation\<close>

text \<open>
  Every call of \<open>fetch\<close> is recorded with the query it asks for. A request is \<open>Pending\<close>
  until its promise settles; \<open>abort()\<close> on its controller turns a pending request into
  \<open>Aborted\<close>, whose promise rejects with an \<open>AbortError\<close> whatever the network delivers;
  aborting a request that has settled does nothing.

  A request ends in one of four ways: an answer with status 200 and a JSON object, as the
  search endpoint sends it; an answer that is not \<open>ok\<close>; a failure of the network; a body
  that is not JSON. The queries covered are those for which \<open>encodeURIComponent\<close> returns,
  that is the strings without a lone surrogate: for the others it throws before \<open>fetch\<close>
  is called, and the widgets show their error markup.
\<close>

datatype fetch_status = Pending | Aborted | Settled

record request =
  req_query :: jsstring
  req_status :: fetch_status

datatype outcome =
    Ok_json payload
  | Not_ok
  | Network_failure
  | Malformed_json

definition abort :: "nat \<Rightarrow> request list \<Rightarrow> request list" where
  "abort c rs =
     (if c < length rs \<and> req_status (rs ! c) = Pending
      then rs[c := (rs ! c)\<lparr>req_status := Aborted\<rparr>] else rs)"

definition in_flight :: "request list \<Rightarrow> nat list" where
  "in_flight rs = filter (\<lambda>i. req_status (rs ! i) = Pending) [0..<length rs]"

section \<open>The modal search widget\<close>

text \<open>
  The results container holds either markup that the model spells out, or the grouped
  result sections. The rows of the sections are formatted with \<open>Intl.NumberFormat\<close>, so
  the sections are kept as the data they are built from: the three lists, the query of
  the "view all" link and the input value that \<open>highlightMatch\<close> reads.
\<close>

datatype container =
    Markup jsstring
  | Sections "summary list" "summary list" "summary list" jsstring jsstring

definition rows :: "container \<Rightarrow> summary list" where
  "rows c = (case c of Markup m \<Rightarrow> [] | Sections ps as gs q v \<Rightarrow> ps @ as @ gs)"

record ps_modal =
  cache :: "jsstring \<rightharpoonup> payload"
  selectedIndex :: int
  debounceTimeout :: "jsstring option"
  abortController :: "nat option"
  is_active :: bool
  input_value :: jsstring
  resultsContainer :: container
  location_href :: "jsstring option"
  requests :: "request list"

definition ps_modal_init :: ps_modal where
  "ps_modal_init =
     \<lparr>cache = Map.empty, selectedIndex = -1, debounceTimeout = None, abortController = None,
      is_active = False, input_value = [], resultsContainer = Markup [],
      location_href = None, requests = []\<rparr>"

definition loading_markup :: jsstring where
  \<open>loading_markup =
     js ''\<newline>        <div class="search-results__loading">\<newline>''
     @ js ''          <span class="spinner"></span>\<newline>''
     @ js ''          Searching...\<newline>''
     @ js ''        </div>\<newline>      ''\<close>

definition error_markup :: jsstring where
  \<open>error_markup =
     js ''\<newline>          <div class="search-results__error">\<newline>''
     @ js ''            <p>Something went wrong. Please try again.</p>\<newline>''
     @ js ''          </div>\<newline>        ''\<close>

definition empty_markup :: "jsstring \<Rightarrow> jsstring" where
  \<open>empty_markup escaped =
     js ''\<newline>          <div class="search-results__empty">\<newline>''
     @ js ''            <p>No results found for "<strong>'' @ escaped @ js ''</strong>"</p>\<newline>''
     @ js ''            <p class="search-results__empty-hint">''
     @ js ''Try different keywords or browse our collections</p>\<newline>''
     @ js ''          </div>\<newline>        ''\<close>

definition renderResults :: "payload \<Rightarrow> jsstring \<Rightarrow> ps_modal \<Rightarrow> ps_modal" where
  "renderResults data query s =
     (let products = products_of data; articles = articles_of data; pages = pages_of data
      in if products = [] \<and> articles = [] \<and> pages = []
         then s\<lparr>resultsContainer := Markup (empty_markup (escapeHtml query))\<rparr>
         else s\<lparr>resultsContainer := Sections products articles pages query (input_value s),
                selectedIndex := -1\<rparr>)"

text \<open>
  \<open>search\<close> up to its \<open>await\<close>: a cached query is rendered and nothing else happens;
  otherwise the controller of the previous request is aborted and a new request is
  issued under a new controller.
\<close>

definition search :: "jsstring \<Rightarrow> ps_modal \<Rightarrow> ps_modal" where
  "search query s =
     (case own_or_inherited (cache s) query of
        Some data \<Rightarrow> renderResults data query s
      | None \<Rightarrow>
          (let rs = (case abortController s of None \<Rightarrow> requests s
                     | Some c \<Rightarrow> abort c (requests s))
           in s\<lparr>abortController := Some (length rs),
                requests := rs @ [\<lparr>req_query = query, req_status = Pending\<rparr>]\<rparr>))"

text \<open>
  \<open>search\<close> after its \<open>await\<close>, when the promise of request \<open>i\<close> settles with what the
  network delivered: an aborted request lands in the \<open>catch\<close> block that returns on
  \<open>AbortError\<close>; a good answer is cached and rendered; everything else shows the error.
\<close>

definition search_settled :: "nat \<Rightarrow> outcome \<Rightarrow> ps_modal \<Rightarrow> ps_modal" where
  "search_settled i out s =
     (if length (requests s) \<le> i \<or> req_status (requests s ! i) = Settled then s
      else
        let r = requests s ! i;
            query = req_query r;
            s1 = s\<lparr>requests := (requests s)[i := r\<lparr>req_status := Settled\<rparr>]\<rparr>
        in if req_status r = Aborted then s1
           else (case out of
                   Ok_json data \<Rightarrow>
                     renderResults data query (s1\<lparr>cache := (cache s1)(query \<mapsto> data)\<rparr>)
                 | Not_ok \<Rightarrow> s1\<lparr>resultsContainer := Markup error_markup\<rparr>
                 | Network_failure \<Rightarrow> s1\<lparr>resultsContainer := Markup error_markup\<rparr>
                 | Malformed_json \<Rightarrow> s1\<lparr>resultsContainer := Markup error_markup\<rparr>))"

definition handleInput :: "jsstring \<Rightarrow> ps_modal \<Rightarrow> ps_modal" where
  "handleInput v s =
     (let query = trim v;
          s1 = s\<lparr>input_value := v, debounceTimeout := None\<rparr>
      in if length query < 2 then s1\<lparr>resultsContainer := Markup []\<rparr>
         else s1\<lparr>resultsContainer := Markup loading_markup, debounceTimeout := Some query\<rparr>)"

definition debounce_fires :: "ps_modal \<Rightarrow> ps_modal" where
  "debounce_fires s =
     (case debounceTimeout s of None \<Rightarrow> s
      | Some query \<Rightarrow> search query (s\<lparr>debounceTimeout := None\<rparr>))"

datatype key = ArrowDown | ArrowUp | Enter | Escape | Other_key

definition handleKeydown :: "key \<Rightarrow> ps_modal \<Rightarrow> ps_modal" where
  "handleKeydown k s =
     (let results = rows (resultsContainer s)
      in if results = [] then s
         else (case k of
                 ArrowDown \<Rightarrow>
                   s\<lparr>selectedIndex := min (selectedIndex s + 1) (int (length results) - 1)\<rparr>
               | ArrowUp \<Rightarrow> s\<lparr>selectedIndex := max (selectedIndex s - 1) (- 1)\<rparr>
               | Enter \<Rightarrow>
                   (if 0 \<le> selectedIndex s \<and> selectedIndex s < int (length results)
                    then s\<lparr>location_href := Some (url (results ! nat (selectedIndex s)))\<rparr>
                    else s)
               | Escape \<Rightarrow> s
               | Other_key \<Rightarrow> s))"

definition ps_open :: "ps_modal \<Rightarrow> ps_modal" where
  "ps_open s = s\<lparr>is_active := True\<rparr>"

definition ps_close :: "ps_modal \<Rightarrow> ps_modal" where
  "ps_close s =
     s\<lparr>is_active := False, input_value := [], resultsContainer := Markup [],
       selectedIndex := -1\<rparr>"

text \<open>
  What can happen to the widget: the listeners of \<open>init\<close>, the debounce timer and the
  settling of a request. A key pressed in the input reaches \<open>handleKeydown\<close> and then the
  document's listener, which closes an active modal on Escape.
\<close>

datatype ps_event =
    Input jsstring
  | Debounce_fires
  | Settles nat outcome
  | Keydown key
  | Open_click
  | Close_click

fun ps_step :: "ps_modal \<Rightarrow> ps_event \<Rightarrow> ps_modal" where
  "ps_step s (Input v) = handleInput v s"
| "ps_step s Debounce_fires = debounce_fires s"
| "ps_step s (Settles i out) = search_settled i out s"
| "ps_step s (Keydown k) =
     (let s1 = handleKeydown k s
      in if k = Escape \<and> is_active s1 then ps_close s1 else s1)"
| "ps_step s Open_click = ps_open s"
| "ps_step s Close_click = ps_close s"

definition ps_run :: "ps_event list \<Rightarrow> ps_modal" where
  "ps_run evs = foldl ps_step ps_modal_init evs"

section \<open>The predictive-search element\<close>

text \<open>
  The custom element keeps its selection in the \<open>aria-selected\<close> attributes of the
  rendered items, so the result list is modelled with one flag per item, in document
  order (products, articles, pages). \<open>results\<close> is \<open>None\<close> when the element has no results
  node; the status line is not modelled.
\<close>

datatype listbox =
    Text_markup jsstring
  | Items "summary list" "summary list" "summary list" "bool list"

definition item_flags :: "listbox \<Rightarrow> bool list" where
  "item_flags b = (case b of Text_markup m \<Rightarrow> [] | Items ps as gs fs \<Rightarrow> fs)"

definition item_links :: "listbox \<Rightarrow> summary list" where
  "item_links b = (case b of Text_markup m \<Rightarrow> [] | Items ps as gs fs \<Rightarrow> ps @ as @ gs)"

definition set_flags :: "bool list \<Rightarrow> listbox \<Rightarrow> listbox" where
  "set_flags fs b = (case b of Text_markup m \<Rightarrow> Text_markup m | Items ps as gs old \<Rightarrow> Items ps as gs fs)"

record ps_element =
  input :: jsstring
  results :: "listbox option"
  open_attr :: bool
  loading_attr :: bool
  controller :: "nat option"
  cachedResults :: "jsstring \<rightharpoonup> payload"
  timeout_pending :: bool
  clicked_link :: "jsstring option"
  fetches :: "request list"

definition ps_element_init :: ps_element where
  "ps_element_init =
     \<lparr>input = [], results = Some (Text_markup []), open_attr = False, loading_attr = False,
      controller = None, cachedResults = Map.empty, timeout_pending = False,
      clicked_link = None, fetches = []\<rparr>"

definition no_results_markup :: "jsstring \<Rightarrow> jsstring" where
  \<open>no_results_markup v =
     js ''\<newline>        <div class="predictive-search__no-results">\<newline>''
     @ js ''          <p>No results found for "'' @ v @ js ''"</p>\<newline>''
     @ js ''        </div>\<newline>      ''\<close>

definition failure_markup :: jsstring where
  \<open>failure_markup =
     js ''\<newline>      <div class="predictive-search__error">\<newline>''
     @ js ''        <p>An error occurred. Please try again.</p>\<newline>''
     @ js ''      </div>\<newline>    ''\<close>

definition el_open :: "ps_element \<Rightarrow> ps_element" where
  "el_open s = s\<lparr>open_attr := True\<rparr>"

definition el_close :: "ps_element \<Rightarrow> ps_element" where
  "el_close s =
     s\<lparr>open_attr := False,
       results := (case results s of None \<Rightarrow> None | Some b \<Rightarrow> Some (Text_markup []))\<rparr>"

definition setLoading :: "bool \<Rightarrow> ps_element \<Rightarrow> ps_element" where
  "setLoading isLoading s = s\<lparr>loading_attr := isLoading\<rparr>"

definition renderSearchResults :: "payload \<Rightarrow> ps_element \<Rightarrow> ps_element" where
  "renderSearchResults data s =
     (case results s of
        None \<Rightarrow> s
      | Some b \<Rightarrow>
          (let products = products_of data; articles = articles_of data; pages = pages_of data;
               hasResults = (0 < length products \<or> 0 < length articles \<or> 0 < length pages)
           in el_open
                (if \<not> hasResults
                 then s\<lparr>results := Some (Text_markup (no_results_markup (input s)))\<rparr>
                 else s\<lparr>results :=
                          Some (Items products articles pages
                                  (replicate (length (products @ articles @ pages)) False))\<rparr>)))"

definition renderError :: "ps_element \<Rightarrow> ps_element" where
  "renderError s =
     (case results s of
        None \<Rightarrow> s
      | Some b \<Rightarrow> el_open (s\<lparr>results := Some (Text_markup failure_markup)\<rparr>))"

text \<open>\<open>getSearchResults\<close> up to its \<open>await\<close>.\<close>

definition getSearchResults :: "jsstring \<Rightarrow> ps_element \<Rightarrow> ps_element" where
  "getSearchResults searchTerm s =
     (case own_or_inherited (cachedResults s) searchTerm of
        Some data \<Rightarrow> renderSearchResults data s
      | None \<Rightarrow>
          (let rs = (case controller s of None \<Rightarrow> fetches s | Some c \<Rightarrow> abort c (fetches s))
           in setLoading True
                (s\<lparr>controller := Some (length rs),
                   fetches := rs @ [\<lparr>req_query = searchTerm, req_status = Pending\<rparr>]\<rparr>)))"

text \<open>
  \<open>getSearchResults\<close> after its \<open>await\<close>, when request \<open>i\<close> settles; the \<open>finally\<close> block
  runs on every path.
\<close>

definition getSearchResults_settled :: "nat \<Rightarrow> outcome \<Rightarrow> ps_element \<Rightarrow> ps_element" where
  "getSearchResults_settled i out s =
     (if length (fetches s) \<le> i \<or> req_status (fetches s ! i) = Settled then s
      else
        let r = fetches s ! i;
            searchTerm = req_query r;
            s1 = s\<lparr>fetches := (fetches s)[i := r\<lparr>req_status := Settled\<rparr>]\<rparr>
        in setLoading False
             (if req_status r = Aborted then s1
              else (case out of
                      Ok_json data \<Rightarrow>
                        renderSearchResults data
                          (s1\<lparr>cachedResults := (cachedResults s1)(searchTerm \<mapsto> data)\<rparr>)
                    | Not_ok \<Rightarrow> renderError s1
                    | Network_failure \<Rightarrow> renderError s1
                    | Malformed_json \<Rightarrow> renderError s1)))"

definition onChange :: "ps_element \<Rightarrow> ps_element" where
  "onChange s =
     (let searchTerm = trim (input s)
      in if length searchTerm = 0 then el_close s
         else if length searchTerm < 2 then s
         else getSearchResults searchTerm s)"

definition onFocus :: "ps_element \<Rightarrow> ps_element" where
  "onFocus s =
     (let searchTerm = trim (input s)
      in if 2 \<le> length searchTerm
         then (case own_or_inherited (cachedResults s) searchTerm of
                 Some data \<Rightarrow> renderSearchResults data s
               | None \<Rightarrow> getSearchResults searchTerm s)
         else s)"

text \<open>
  The index of the first item whose \<open>aria-selected\<close> is true, \<open>-1\<close> when there is none:
  \<open>current ? Array.from(items).indexOf(current) : -1\<close>.
\<close>

fun selected_index :: "bool list \<Rightarrow> int" where
  "selected_index [] = - 1"
| "selected_index (f # fs) =
     (if f then 0 else if selected_index fs < 0 then - 1 else selected_index fs + 1)"

datatype direction = Up | Down

definition next_index :: "direction \<Rightarrow> int \<Rightarrow> nat \<Rightarrow> int" where
  "next_index d index n =
     (case d of
        Up \<Rightarrow> (if 0 < index then index - 1 else int n - 1)
      | Down \<Rightarrow> (if index < int n - 1 then index + 1 else 0))"

definition navigateResults :: "direction \<Rightarrow> ps_element \<Rightarrow> ps_element" where
  "navigateResults d s =
     (case results s of
        None \<Rightarrow> s
      | Some b \<Rightarrow>
          (let items = item_flags b
           in if items = [] then s
              else
                let index = next_index d (selected_index items) (length items)
                in s\<lparr>results :=
                       Some (set_flags ((replicate (length items) False)[nat index := True]) b)\<rparr>))"

definition selectResult :: "ps_element \<Rightarrow> ps_element" where
  "selectResult s =
     (case results s of
        None \<Rightarrow> s
      | Some b \<Rightarrow>
          (let index = selected_index (item_flags b)
           in if index < 0 then s
              else s\<lparr>clicked_link := Some (url (item_links b ! nat index))\<rparr>))"

text \<open>
  \<open>onKeydown\<close>. After Escape the code closes the panel and calls \<open>this.input.focus()\<close>,
  which changes nothing here by itself: where the focus was on another node of the
  element, the browser answers with the event \<open>Focus\<close> below, and \<open>onFocus\<close> runs.
\<close>

definition onKeydown :: "key \<Rightarrow> ps_element \<Rightarrow> ps_element" where
  "onKeydown k s =
     (if results s = None then s
      else (case k of
              ArrowUp \<Rightarrow> navigateResults Up s
            | ArrowDown \<Rightarrow> navigateResults Down s
            | Enter \<Rightarrow> selectResult s
            | Escape \<Rightarrow> el_close s
            | Other_key \<Rightarrow> s))"

text \<open>
  What can happen to the element: typing restarts the debounce timer, whose expiry runs
  \<open>onChange\<close>; focus, loss of focus, keys, and the settling of a request.
\<close>

datatype el_event =
    Typed jsstring
  | Timer_fires
  | Focus
  | Focus_lost
  | Key_pressed key
  | Fetch_settles nat outcome

fun el_step :: "ps_element \<Rightarrow> el_event \<Rightarrow> ps_element" where
  "el_step s (Typed v) = s\<lparr>input := v, timeout_pending := True\<rparr>"
| "el_step s Timer_fires =
     (if timeout_pending s then onChange (s\<lparr>timeout_pending := False\<rparr>) else s)"
| "el_step s Focus = onFocus s"
| "el_step s Focus_lost = el_close s"
| "el_step s (Key_pressed k) = onKeydown k s"
| "el_step s (Fetch_settles i out) = getSearchResults_settled i out s"

definition el_run :: "el_event list \<Rightarrow> ps_element" where
  "el_run evs = foldl el_step ps_element_init evs"

section \<open>The product quiz\<close>

text \<open>
  A product of the quiz data, with the properties that \<open>getRecommendations\<close> reads. The
  metafields \<open>quiz_score_<goal>\<close> are integers, looked up by the goal; a metafield or an
  answer that is absent is \<open>None\<close>.
\<close>

record quiz_product =
  handle :: jsstring
  tags :: "jsstring list"
  available :: bool
  quiz_score :: "jsstring \<rightharpoonup> int"
  quiz_experience_level :: "jsstring option"
  quiz_space_required :: "jsstring option"

text \<open>
  The answers: \<open>goal\<close> and \<open>space\<close> come from single-choice steps, \<open>experience\<close> from a
  slider (\<open>parseInt\<close>), \<open>focus\<close> from a multiple-choice step (an array). The tests
  \<open>if (this.answers.goal)\<close> and the like are JavaScript truthiness: an empty string and
  the number 0 count as absent, an empty array does not.
\<close>

record answers =
  goal :: "jsstring option"
  experience :: "int option"
  space :: "jsstring option"
  focus :: "jsstring list option"

text \<open>
  The body of the \<open>map\<close> callback of \<open>getRecommendations\<close>. Each of its five blocks
  adds to the running \<open>score\<close>; a block is a function of the score so far.
\<close>

definition goal_matching :: "answers \<Rightarrow> quiz_product \<Rightarrow> int \<Rightarrow> int" where
  "goal_matching a p score =
     (case goal a of
        None \<Rightarrow> score
      | Some g \<Rightarrow>
          if g = [] then score
          else
            let score =
                  (case quiz_score p g of
                     None \<Rightarrow> score
                   | Some goalScore \<Rightarrow>
                       if goalScore = 0 then score else score + goalScore * 3)
            in if g \<in> set (tags p) then score + 10 else score)"

definition experience_matching :: "answers \<Rightarrow> quiz_product \<Rightarrow> int \<Rightarrow> int" where
  "experience_matching a p score =
     (case experience a of
        None \<Rightarrow> score
      | Some expLevel \<Rightarrow>
          if expLevel = 0 then score
          else
            let productExp = quiz_experience_level p
            in if productExp = Some (js ''all'') then score + 5
               else if productExp = Some (js ''beginner'') \<and> expLevel \<le> 4 then score + 8
               else if productExp = Some (js ''intermediate'') \<and> 4 \<le> expLevel \<and> expLevel \<le> 7
               then score + 8
               else if productExp = Some (js ''advanced'') \<and> 7 \<le> expLevel then score + 8
               else score)"

definition space_matching :: "answers \<Rightarrow> quiz_product \<Rightarrow> int \<Rightarrow> int" where
  "space_matching a p score =
     (case space a of
        None \<Rightarrow> score
      | Some sp \<Rightarrow>
          if sp = [] then score
          else
            let productSpace = quiz_space_required p
            in if productSpace = Some sp then score + 6
               else if productSpace = Some (js ''small'') then score + 3
               else score)"

definition focus_areas :: "answers \<Rightarrow> quiz_product \<Rightarrow> int \<Rightarrow> int" where
  "focus_areas a p score =
     (case focus a of
        None \<Rightarrow> score
      | Some fs \<Rightarrow> fold (\<lambda>f sc. if f \<in> set (tags p) then sc + 4 else sc) fs score)"

definition available_bonus :: "quiz_product \<Rightarrow> int \<Rightarrow> int" where
  "available_bonus p score = (if available p then score + 2 else score)"

definition score_of :: "answers \<Rightarrow> quiz_product \<Rightarrow> int" where
  "score_of a p =
     available_bonus p
       (focus_areas a p (space_matching a p (experience_matching a p (goal_matching a p 0))))"

text \<open>The object \<open>{ ...product, score }\<close> that the callback returns.\<close>

record scored_product =
  product :: quiz_product
  score :: int

text \<open>
  \<open>Array.prototype.sort\<close> with a comparator is stable; with the comparator of
  \<open>getRecommendations\<close>, the difference of two integer scores, its result is the stable
  insertion of every element before the first one it does not have to follow.
\<close>

fun insert_by :: "('a \<Rightarrow> 'a \<Rightarrow> int) \<Rightarrow> 'a \<Rightarrow> 'a list \<Rightarrow> 'a list" where
  "insert_by cmp x [] = [x]"
| "insert_by cmp x (y # ys) =
     (if cmp x y \<le> 0 then x # y # ys else y # insert_by cmp x ys)"

definition sort_by :: "('a \<Rightarrow> 'a \<Rightarrow> int) \<Rightarrow> 'a list \<Rightarrow> 'a list" where
  "sort_by cmp xs = foldr (insert_by cmp) xs []"

text \<open>\<open>slice(0, end)\<close>: a negative \<open>end\<close> counts from the end of the array.\<close>

definition slice_to :: "int \<Rightarrow> 'a list \<Rightarrow> 'a list" where
  "slice_to e xs =
     (if e < 0 then take (nat (int (length xs) + e)) xs else take (nat e) xs)"

text \<open>
  The quiz state that the recommendations depend on. \<open>resultsCount\<close> is
  \<open>parseInt(...dataset.resultsCount) || 3\<close>: \<open>None\<close> is a value that does not parse.
\<close>

definition parsed_or_3 :: "int option \<Rightarrow> int" where
  "parsed_or_3 parsed = (case parsed of None \<Rightarrow> 3 | Some n \<Rightarrow> if n = 0 then 3 else n)"

record quiz =
  quiz_products :: "quiz_product list"
  quiz_answers :: answers
  resultsCount :: int

definition scored :: "quiz \<Rightarrow> scored_product list" where
  "scored q =
     map (\<lambda>p. \<lparr>product = p, score = score_of (quiz_answers q) p\<rparr>) (quiz_products q)"

definition getRecommendations :: "quiz \<Rightarrow> scored_product list" where
  "getRecommendations q =
     slice_to (resultsCount q)
       (sort_by (\<lambda>a b. score b - score a) (filter (\<lambda>p. 0 < score p) (scored q)))"

text \<open>
  JavaScript numbers are IEEE 754 doubles. \<open>to_double\<close> rounds a real number to the
  nearest double, ties to the even significand: 53 significant bits in the binade of the
  number. The ends of the range of doubles (subnormal numbers, overflow) are not
  modelled. Integers below \<open>2 ^ 53\<close> in absolute value are doubles, and sums and
  products of them that stay below it are exact: the scores above are such integers.
\<close>

definition round_half_even :: "real \<Rightarrow> int" where
  "round_half_even x =
     (if x - of_int \<lfloor>x\<rfloor> < 1 / 2 then \<lfloor>x\<rfloor>
      else if 1 / 2 < x - of_int \<lfloor>x\<rfloor> then \<lfloor>x\<rfloor> + 1
      else if even \<lfloor>x\<rfloor> then \<lfloor>x\<rfloor> else \<lfloor>x\<rfloor> + 1)"

definition binade :: "real \<Rightarrow> int" where
  "binade x = \<lfloor>log 2 \<bar>x\<bar>\<rfloor>"

definition to_double :: "real \<Rightarrow> real" where
  "to_double x =
     (if x = 0 then 0
      else sgn x * (of_int (round_half_even (\<bar>x\<bar> / 2 powi (binade x - 52)))
                    * 2 powi (binade x - 52)))"

text \<open>
  \<open>renderResults\<close> of the quiz. The quotient and the product of
  \<open>(product.score / maxScore) * 100\<close> are each rounded to a double; \<open>Math.round\<close> gives
  the nearest integer, halves upwards. A card is kept as the product and the percentage
  shown on it; the container is \<open>None\<close> when the quiz has no results node.
\<close>

definition Math_round :: "real \<Rightarrow> int" where
  "Math_round x = \<lfloor>x + 1 / 2\<rfloor>"


definition matchPercent :: "int \<Rightarrow> int \<Rightarrow> int" where
  "matchPercent sc maxScore =
     Math_round (to_double (to_double (real_of_int sc / real_of_int maxScore) * 100))"



section \<open>The quote system\<close>

text \<open>
  The values that the widget puts into the properties of a quote item: strings from the
  button's \<open>dataset\<close> and from the cart, \<open>undefined\<close> for a data attribute that is not
  there, \<open>null\<close> and numbers from the cart's JSON. On these values \<open>===\<close> is equality.
\<close>

datatype js_value = Undefined | Null | Str jsstring | Num int

record quote_item =
  item_id :: js_value
  productId :: js_value
  productTitle :: js_value
  productHandle :: js_value
  productImage :: js_value
  variantId :: js_value
  variantTitle :: js_value
  variantPrice :: js_value
  quantity :: js_value

text \<open>
  \<open>JSON.stringify\<close> and \<open>JSON.parse\<close>. The text that \<open>localStorage\<close> holds is identified
  with the JSON value it denotes; what is modelled is the passage between objects and
  JSON values. An object is the list of its properties in the order of the object
  literal. \<open>JSON.stringify\<close> leaves out the properties whose value is \<open>undefined\<close>, and
  reading a property that an object does not have gives \<open>undefined\<close>.
\<close>

type_synonym js_object = "(jsstring \<times> js_value) list"

datatype stored =
    Malformed
  | Json_falsy
  | Json_array "js_object list"

definition item_properties :: "quote_item \<Rightarrow> js_object" where
  "item_properties i =
     [(js ''id'', item_id i), (js ''productId'', productId i),
      (js ''productTitle'', productTitle i), (js ''productHandle'', productHandle i),
      (js ''productImage'', productImage i), (js ''variantId'', variantId i),
      (js ''variantTitle'', variantTitle i), (js ''variantPrice'', variantPrice i),
      (js ''quantity'', quantity i)]"

definition defined_property :: "jsstring \<times> js_value \<Rightarrow> bool" where
  "defined_property kv = (case snd kv of Undefined \<Rightarrow> False | Null \<Rightarrow> True
                          | Str s \<Rightarrow> True | Num n \<Rightarrow> True)"

definition JSON_stringify :: "quote_item list \<Rightarrow> stored" where
  "JSON_stringify xs = Json_array (map (\<lambda>i. filter defined_property (item_properties i)) xs)"

definition property :: "js_object \<Rightarrow> jsstring \<Rightarrow> js_value" where
  "property obj k = (case map_of obj k of None \<Rightarrow> Undefined | Some v \<Rightarrow> v)"

definition item_of_object :: "js_object \<Rightarrow> quote_item" where
  "item_of_object obj =
     \<lparr>item_id = property obj (js ''id''), productId = property obj (js ''productId''),
      productTitle = property obj (js ''productTitle''),
      productHandle = property obj (js ''productHandle''),
      productImage = property obj (js ''productImage''),
      variantId = property obj (js ''variantId''),
      variantTitle = property obj (js ''variantTitle''),
      variantPrice = property obj (js ''variantPrice''),
      quantity = property obj (js ''quantity'')\<rparr>"

text \<open>
  \<open>loadItems\<close>: \<open>getItem\<close> gives \<open>null\<close> for a key that is not there, which parses to
  \<open>null\<close>; a falsy value gives way to \<open>[]\<close>, and so does text that does not parse.
\<close>

definition loadItems :: "stored option \<Rightarrow> quote_item list" where
  "loadItems st =
     (case st of
        None \<Rightarrow> []
      | Some Malformed \<Rightarrow> []
      | Some Json_falsy \<Rightarrow> []
      | Some (Json_array objs) \<Rightarrow> map item_of_object objs)"

record quote_system =
  items :: "quote_item list"
  isOpen :: bool
  quoteItems :: "stored option"

definition new_QuoteSystem :: "stored option \<Rightarrow> quote_system" where
  "new_QuoteSystem st = \<lparr>items = loadItems st, isOpen = False, quoteItems = st\<rparr>"

definition saveItems :: "quote_system \<Rightarrow> quote_system" where
  "saveItems s = s\<lparr>quoteItems := Some (JSON_stringify (items s))\<rparr>"

text \<open>
  \<open>Number.prototype.toString\<close> on an integer and \<open>Date.now()\<close>, whose reading is an
  argument of the functions that ask for it.
\<close>

function decimal :: "nat \<Rightarrow> jsstring" where
  "decimal n = (if n < 10 then [of_nat (48 + n)] else decimal (n div 10) @ [of_nat (48 + n mod 10)])"
  by pat_completeness auto
termination
  by (relation "measure (\<lambda>n. n)") auto

definition toString :: "int \<Rightarrow> jsstring" where
  "toString n = (if n < 0 then 0x2D # decimal (nat (- n)) else decimal (nat n))"

text \<open>The data attributes of a quote button; \<open>None\<close> is an attribute that is not there.\<close>

record quote_button =
  data_productId :: "jsstring option"
  data_productTitle :: "jsstring option"
  data_productHandle :: "jsstring option"
  data_productImage :: "jsstring option"
  data_variantId :: "jsstring option"
  data_variantTitle :: "jsstring option"
  data_variantPrice :: "jsstring option"

definition dataset :: "jsstring option \<Rightarrow> js_value" where
  "dataset v = (case v of None \<Rightarrow> Undefined | Some s \<Rightarrow> Str s)"

definition addItem :: "int \<Rightarrow> quote_button \<Rightarrow> quote_system \<Rightarrow> quote_system" where
  "addItem now button s =
     (let item =
            \<lparr>item_id = Str (toString now),
             productId = dataset (data_productId button),
             productTitle = dataset (data_productTitle button),
             productHandle = dataset (data_productHandle button),
             productImage = dataset (data_productImage button),
             variantId = dataset (data_variantId button),
             variantTitle = dataset (data_variantTitle button),
             variantPrice = dataset (data_variantPrice button),
             quantity = Undefined\<rparr>;
          exists = find (\<lambda>i. productId i = productId item \<and> variantId i = variantId item)
                     (items s)
      in if exists = None then saveItems (s\<lparr>items := items s @ [item]\<rparr>) else s)"

definition removeItem :: "js_value \<Rightarrow> quote_system \<Rightarrow> quote_system" where
  "removeItem itemId s = saveItems (s\<lparr>items := filter (\<lambda>item. item_id item \<noteq> itemId) (items s)\<rparr>)"

text \<open>
  A line of \<open>/cart.js\<close>, with the reading of \<open>Date.now()\<close> at the moment the loop of
  \<open>convertCartToQuote\<close> visits it. \<open>Theme.formatMoney\<close> formats with \<open>toFixed\<close>; it is the
  argument \<open>formatMoney\<close>.
\<close>

record cart_line =
  product_id :: int
  variant_id :: int
  product_title :: js_value
  line_handle :: js_value
  image :: js_value
  variant_title :: js_value
  price :: int
  line_quantity :: js_value
  visited_at :: int

definition convert_line :: "(int \<Rightarrow> jsstring) \<Rightarrow> quote_item list \<Rightarrow> cart_line \<Rightarrow> quote_item list" where
  "convert_line formatMoney xs item =
     (let exists = find (\<lambda>i. productId i = Str (toString (product_id item))
                              \<and> variantId i = Str (toString (variant_id item))) xs
      in if exists = None
         then xs @ [\<lparr>item_id = Str (toString (visited_at item) @ toString (variant_id item)),
                     productId = Str (toString (product_id item)),
                     productTitle = product_title item,
                     productHandle = line_handle item,
                     productImage = image item,
                     variantId = Str (toString (variant_id item)),
                     variantTitle = variant_title item,
                     variantPrice = Str (formatMoney (price item)),
                     quantity = line_quantity item\<rparr>]
         else xs)"

text \<open>
  \<open>convertCartToQuote\<close> after its \<open>await\<close>: \<open>None\<close> is a request for the cart that failed,
  which the \<open>catch\<close> block logs.
\<close>

definition convertCartToQuote ::
    "(int \<Rightarrow> jsstring) \<Rightarrow> cart_line list option \<Rightarrow> quote_system \<Rightarrow> quote_system" where
  "convertCartToQuote formatMoney cart s =
     (case cart of
        None \<Rightarrow> s
      | Some lines \<Rightarrow>
          (saveItems (s\<lparr>items := foldl (convert_line formatMoney) (items s) lines\<rparr>))
            \<lparr>isOpen := True\<rparr>)"

definition handleSubmit :: "quote_system \<Rightarrow> quote_system" where
  "handleSubmit s = saveItems (s\<lparr>items := []\<rparr>)"

text \<open>
  What can happen to the quote system: clicks on a quote button (which also opens the
  modal), on a remove button and on the convert button, the submission of the form,
  and a new page, on which the constructor reads the stored items again.
\<close>

datatype quote_event =
    Quote_click int quote_button
  | Remove_click js_value
  | Cart_answers "cart_line list option"
  | Form_submitted
  | Page_loaded

fun quote_step :: "(int \<Rightarrow> jsstring) \<Rightarrow> quote_system \<Rightarrow> quote_event \<Rightarrow> quote_system" where
  "quote_step formatMoney s (Quote_click now button) = (addItem now button s)\<lparr>isOpen := True\<rparr>"
| "quote_step formatMoney s (Remove_click itemId) = removeItem itemId s"
| "quote_step formatMoney s (Cart_answers cart) = convertCartToQuote formatMoney cart s"
| "quote_step formatMoney s Form_submitted = handleSubmit s"
| "quote_step formatMoney s Page_loaded = new_QuoteSystem (quoteItems s)"

definition quote_run :: "(int \<Rightarrow> jsstring) \<Rightarrow> stored option \<Rightarrow> quote_event list \<Rightarrow> quote_system" where
  "quote_run formatMoney st evs = foldl (quote_step formatMoney) (new_QuoteSystem st) evs"

section \<open>Auxiliary notions of the verification\<close>

text \<open>
  What \<open>search\<close> and \<open>getSearchResults\<close> do with the request list before they issue a
  new request, and the invariant that ties the pending request to the current controller.
\<close>

definition cancel_previous :: "nat option \<Rightarrow> request list \<Rightarrow> request list" where
  "cancel_previous ctl rs = (case ctl of None \<Rightarrow> rs | Some c \<Rightarrow> abort c rs)"

definition one_pending :: "request list \<Rightarrow> nat option \<Rightarrow> bool" where
  "one_pending rs ctl = (\<forall>i<length rs. req_status (rs ! i) = Pending \<longrightarrow> ctl = Some i)"

text \<open>A payload with one product, for the concrete runs below.\<close>

definition one_hit :: "jsstring \<Rightarrow> payload" where
  "one_hit t =
     \<lparr>resources_results =
        Some \<lparr>products = Some [\<lparr>title = t, url = js ''/p''\<rparr>], articles = None, pages = None\<rparr>\<rparr>"

text \<open>A payload with a product, an article and a page.\<close>

definition three_hits :: payload where
  "three_hits =
     \<lparr>resources_results =
        Some \<lparr>products = Some [\<lparr>title = js ''Bar'', url = js ''/products/bar''\<rparr>],
              articles = Some [\<lparr>title = js ''Bar care'', url = js ''/blogs/news/bar-care''\<rparr>],
              pages = Some [\<lparr>title = js ''Bar sizes'', url = js ''/pages/bar-sizes''\<rparr>]\<rparr>\<rparr>"


text \<open>
  The value of the goal metafield that \<open>goal_matching\<close> multiplies by 3: that of the
  chosen goal, 0 where there is no goal or no metafield.
\<close>

definition goal_metafield :: "answers \<Rightarrow> quiz_product \<Rightarrow> int" where
  "goal_metafield a p =
     (case goal a of None \<Rightarrow> 0
      | Some g \<Rightarrow> (case quiz_score p g of None \<Rightarrow> 0 | Some goalScore \<Rightarrow> goalScore))"

text \<open>
  Quiz data for the concrete runs below: four products that score 5, 0, 8 and 3 under
  the answers of \<open>example_quiz\<close>, and a product with one goal metafield.
\<close>

definition four_products :: "quiz_product list" where
  "four_products =
     [\<lparr>handle = js ''rack'', tags = [], available = False, quiz_score = Map.empty,
       quiz_experience_level = Some (js ''all''), quiz_space_required = None\<rparr>,
      \<lparr>handle = js ''mat'', tags = [], available = False, quiz_score = Map.empty,
       quiz_experience_level = None, quiz_space_required = None\<rparr>,
      \<lparr>handle = js ''bands'', tags = [], available = False, quiz_score = Map.empty,
       quiz_experience_level = Some (js ''beginner''), quiz_space_required = None\<rparr>,
      \<lparr>handle = js ''rope'', tags = [], available = False, quiz_score = Map.empty,
       quiz_experience_level = None, quiz_space_required = Some (js ''small'')\<rparr>]"

definition example_quiz :: quiz where
  "example_quiz =
     \<lparr>quiz_products = four_products,
      quiz_answers = \<lparr>goal = None, experience = Some 3, space = Some (js ''large''), focus = None\<rparr>,
      resultsCount = 3\<rparr>"

definition strength_product :: "int \<Rightarrow> quiz_product" where
  "strength_product n =
     \<lparr>handle = js ''bar'', tags = [], available = False,
      quiz_score = [js ''strength'' \<mapsto> n],
      quiz_experience_level = None, quiz_space_required = None\<rparr>"

definition strength_answers :: answers where
  "strength_answers = \<lparr>goal = Some (js ''strength''), experience = None, space = None, focus = None\<rparr>"


text \<open>
  The quote list has no two items with the same product and variant; the stored list
  and the list in memory agree; both lists are free of such duplicates.
\<close>

definition no_duplicates :: "quote_item list \<Rightarrow> bool" where
  "no_duplicates xs = distinct (map (\<lambda>i. (productId i, variantId i)) xs)"

definition in_step :: "quote_system \<Rightarrow> bool" where
  "in_step s = (loadItems (quoteItems s) = items s)"

definition stored_clean :: "quote_system \<Rightarrow> bool" where
  "stored_clean s = (no_duplicates (items s) \<and> no_duplicates (loadItems (quoteItems s)))"

text \<open>Two quote buttons for the concrete runs below.\<close>

definition bar_button :: quote_button where
  "bar_button =
     \<lparr>data_productId = Some (js ''71''), data_productTitle = Some (js ''Bar Pro''),
      data_productHandle = Some (js ''bar''), data_productImage = None,
      data_variantId = Some (js ''9''), data_variantTitle = None,
      data_variantPrice = Some (js ''$10.00'')\<rparr>"

definition mat_button :: quote_button where
  "mat_button =
     \<lparr>data_productId = Some (js ''72''), data_productTitle = Some (js ''Mat''),
      data_productHandle = Some (js ''mat''), data_productImage = None,
      data_variantId = None, data_variantTitle = None, data_variantPrice = None\<rparr>"

section \<open>One request at a time\<close>

lemma one_pending_in_flight:
  assumes "one_pending rs ctl"
  shows "length (in_flight rs) \<le> 1"
proof -
  have d: "distinct (in_flight rs)" by (simp add: in_flight_def)
  have "set (in_flight rs) \<subseteq> (case ctl of None \<Rightarrow> {} | Some c \<Rightarrow> {c})"
    using assms by (auto simp: in_flight_def one_pending_def split: option.splits)
  then have "set (in_flight rs) \<subseteq> {the ctl}"
    by (cases ctl) auto
  then have "card (set (in_flight rs)) \<le> card {the ctl}"
    by (intro card_mono) simp_all
  then show ?thesis using d by (simp add: distinct_card)
qed

lemma length_abort [simp]: "length (abort c rs) = length rs"
  by (simp add: abort_def)

lemma abort_status:
  "i < length rs \<Longrightarrow> req_status (abort c rs ! i) =
     (if i = c \<and> req_status (rs ! i) = Pending then Aborted else req_status (rs ! i))"
  by (auto simp: abort_def nth_list_update)

lemma length_cancel_previous [simp]: "length (cancel_previous ctl rs) = length rs"
  by (simp add: cancel_previous_def split: option.splits)

lemma cancel_previous_none_pending:
  assumes "one_pending rs ctl" and "i < length rs"
  shows "req_status (cancel_previous ctl rs ! i) \<noteq> Pending"
  using assms by (cases ctl) (auto simp: cancel_previous_def one_pending_def abort_status)

lemma in_flight_issue:
  assumes "one_pending rs ctl"
  shows "in_flight (cancel_previous ctl rs @ [\<lparr>req_query = q, req_status = Pending\<rparr>]) = [length rs]"
proof -
  let ?rs = "cancel_previous ctl rs"
  have "filter (\<lambda>i. req_status ((?rs @ [\<lparr>req_query = q, req_status = Pending\<rparr>]) ! i) = Pending) [0..<length rs] = []"
    using cancel_previous_none_pending [OF assms]
    by (auto simp: filter_empty_conv nth_append)
  then show ?thesis by (simp add: in_flight_def nth_append)
qed

lemma one_pending_issue:
  assumes "one_pending rs ctl"
  shows "one_pending (cancel_previous ctl rs @ [\<lparr>req_query = q, req_status = Pending\<rparr>]) (Some (length rs))"
  using cancel_previous_none_pending [OF assms]
  by (auto simp: one_pending_def nth_append less_Suc_eq)

lemma one_pending_settle:
  assumes "one_pending rs ctl"
  shows "one_pending (rs[i := (rs ! i)\<lparr>req_status := Settled\<rparr>]) ctl"
proof (cases "i < length rs")
  case True
  then show ?thesis using assms by (auto simp: one_pending_def nth_list_update)
next
  case False
  then show ?thesis using assms by (simp add: list_update_beyond)
qed

lemma requests_renderResults [simp]:
  "requests (renderResults data q s) = requests s"
  "abortController (renderResults data q s) = abortController s"
  "cache (renderResults data q s) = cache s"
  by (simp_all add: renderResults_def Let_def)

lemma search_miss:
  "own_or_inherited (cache s) q = None \<Longrightarrow>
     search q s = s\<lparr>abortController := Some (length (requests s)),
                    requests := cancel_previous (abortController s) (requests s)
                                @ [\<lparr>req_query = q, req_status = Pending\<rparr>]\<rparr>"
  by (simp add: search_def cancel_previous_def Let_def split: option.splits)

lemma search_hit:
  "own_or_inherited (cache s) q = Some d \<Longrightarrow> search q s = renderResults d q s"
  by (simp add: search_def)

lemma one_pending_search:
  assumes "one_pending (requests s) (abortController s)"
  shows "one_pending (requests (search q s)) (abortController (search q s))"
proof (cases "own_or_inherited (cache s) q")
  case None
  then show ?thesis using one_pending_issue [OF assms] by (simp add: search_miss)
next
  case (Some d)
  then show ?thesis using assms by (simp add: search_hit)
qed

lemma search_settled_requests:
  "requests (search_settled i out s) =
     (if length (requests s) \<le> i \<or> req_status (requests s ! i) = Settled then requests s
      else (requests s)[i := (requests s ! i)\<lparr>req_status := Settled\<rparr>])"
  by (simp add: search_settled_def Let_def split: outcome.split)

lemma search_settled_controller:
  "abortController (search_settled i out s) = abortController s"
  by (simp add: search_settled_def Let_def split: outcome.split)

lemma one_pending_search_settled:
  assumes "one_pending (requests s) (abortController s)"
  shows "one_pending (requests (search_settled i out s)) (abortController (search_settled i out s))"
  using assms one_pending_settle [OF assms, of i]
  by (simp add: search_settled_requests search_settled_controller)

lemma one_pending_ps_step:
  assumes "one_pending (requests s) (abortController s)"
  shows "one_pending (requests (ps_step s e)) (abortController (ps_step s e))"
proof (cases e)
  case (Input v)
  then show ?thesis using assms by (simp add: handleInput_def Let_def)
next
  case Debounce_fires
  then show ?thesis
    using assms one_pending_search [of "s\<lparr>debounceTimeout := None\<rparr>"]
    by (simp add: debounce_fires_def split: option.splits)
next
  case (Settles i out)
  then show ?thesis using one_pending_search_settled [OF assms] by simp
next
  case (Keydown k)
  then show ?thesis using assms
    by (cases k) (simp_all add: handleKeydown_def ps_close_def Let_def)
next
  case Open_click
  then show ?thesis using assms by (simp add: ps_open_def)
next
  case Close_click
  then show ?thesis using assms by (simp add: ps_close_def)
qed

lemma one_pending_foldl_ps:
  "one_pending (requests s) (abortController s) \<Longrightarrow>
   one_pending (requests (foldl ps_step s evs)) (abortController (foldl ps_step s evs))"
  by (induction evs arbitrary: s) (simp_all add: one_pending_ps_step)

lemma one_pending_ps_run: "one_pending (requests (ps_run evs)) (abortController (ps_run evs))"
  unfolding ps_run_def
  by (rule one_pending_foldl_ps) (simp add: ps_modal_init_def one_pending_def)

lemma fields_renderSearchResults [simp]:
  "fetches (renderSearchResults data s) = fetches s"
  "controller (renderSearchResults data s) = controller s"
  "cachedResults (renderSearchResults data s) = cachedResults s"
  by (simp_all add: renderSearchResults_def el_open_def Let_def split: option.split)

lemma fields_renderError [simp]:
  "fetches (renderError s) = fetches s"
  "controller (renderError s) = controller s"
  "cachedResults (renderError s) = cachedResults s"
  by (simp_all add: renderError_def el_open_def split: option.split)

lemma getSearchResults_miss:
  "own_or_inherited (cachedResults s) q = None \<Longrightarrow>
     getSearchResults q s =
       setLoading True
         (s\<lparr>controller := Some (length (fetches s)),
            fetches := cancel_previous (controller s) (fetches s)
                       @ [\<lparr>req_query = q, req_status = Pending\<rparr>]\<rparr>)"
  by (simp add: getSearchResults_def cancel_previous_def Let_def split: option.splits)

lemma getSearchResults_hit:
  "own_or_inherited (cachedResults s) q = Some d \<Longrightarrow>
     getSearchResults q s = renderSearchResults d s"
  by (simp add: getSearchResults_def)

lemma one_pending_getSearchResults:
  assumes "one_pending (fetches s) (controller s)"
  shows "one_pending (fetches (getSearchResults q s)) (controller (getSearchResults q s))"
proof (cases "own_or_inherited (cachedResults s) q")
  case None
  then show ?thesis
    using one_pending_issue [OF assms] by (simp add: getSearchResults_miss setLoading_def)
next
  case (Some d)
  then show ?thesis using assms by (simp add: getSearchResults_hit)
qed

lemma getSearchResults_settled_fetches:
  "fetches (getSearchResults_settled i out s) =
     (if length (fetches s) \<le> i \<or> req_status (fetches s ! i) = Settled then fetches s
      else (fetches s)[i := (fetches s ! i)\<lparr>req_status := Settled\<rparr>])"
  by (simp add: getSearchResults_settled_def setLoading_def Let_def split: outcome.split)

lemma getSearchResults_settled_controller:
  "controller (getSearchResults_settled i out s) = controller s"
  by (simp add: getSearchResults_settled_def setLoading_def Let_def split: outcome.split)

lemma one_pending_getSearchResults_settled:
  assumes "one_pending (fetches s) (controller s)"
  shows "one_pending (fetches (getSearchResults_settled i out s))
           (controller (getSearchResults_settled i out s))"
  using assms one_pending_settle [OF assms, of i]
  by (simp add: getSearchResults_settled_fetches getSearchResults_settled_controller)

lemma fields_el_close [simp]:
  "fetches (el_close s) = fetches s" "controller (el_close s) = controller s"
  by (simp_all add: el_close_def)

lemma fields_navigateResults [simp]:
  "fetches (navigateResults d s) = fetches s" "controller (navigateResults d s) = controller s"
  by (simp_all add: navigateResults_def Let_def split: option.split)

lemma fields_selectResult [simp]:
  "fetches (selectResult s) = fetches s" "controller (selectResult s) = controller s"
  by (simp_all add: selectResult_def Let_def split: option.split)

lemma one_pending_onChange:
  assumes "one_pending (fetches s) (controller s)"
  shows "one_pending (fetches (onChange s)) (controller (onChange s))"
  using assms one_pending_getSearchResults [OF assms]
  by (simp add: onChange_def Let_def)

lemma one_pending_onFocus:
  assumes "one_pending (fetches s) (controller s)"
  shows "one_pending (fetches (onFocus s)) (controller (onFocus s))"
  using assms one_pending_getSearchResults [OF assms]
  by (simp add: onFocus_def Let_def split: option.split)

lemma one_pending_el_step:
  assumes "one_pending (fetches s) (controller s)"
  shows "one_pending (fetches (el_step s e)) (controller (el_step s e))"
proof (cases e)
  case (Typed v)
  then show ?thesis using assms by simp
next
  case Timer_fires
  then show ?thesis
    using assms one_pending_onChange [of "s\<lparr>timeout_pending := False\<rparr>"] by simp
next
  case Focus
  then show ?thesis using one_pending_onFocus [OF assms] by simp
next
  case Focus_lost
  then show ?thesis using assms by simp
next
  case (Key_pressed k)
  then show ?thesis using assms by (cases k) (simp_all add: onKeydown_def)
next
  case (Fetch_settles i out)
  then show ?thesis using one_pending_getSearchResults_settled [OF assms] by simp
qed

lemma one_pending_foldl_el:
  "one_pending (fetches s) (controller s) \<Longrightarrow>
   one_pending (fetches (foldl el_step s evs)) (controller (foldl el_step s evs))"
  by (induction evs arbitrary: s) (simp_all add: one_pending_el_step)

lemma one_pending_el_run: "one_pending (fetches (el_run evs)) (controller (el_run evs))"
  unfolding el_run_def
  by (rule one_pending_foldl_el) (simp add: ps_element_init_def one_pending_def)

lemma ps_at_most_one_in_flight: "length (in_flight (requests (ps_run evs))) \<le> 1"
  using one_pending_ps_run by (rule one_pending_in_flight)

lemma el_at_most_one_in_flight: "length (in_flight (fetches (el_run evs))) \<le> 1"
  using one_pending_el_run by (rule one_pending_in_flight)

lemma search_miss_aborts_previous:
  assumes "own_or_inherited (cache (ps_run evs)) q = None"
  shows "in_flight (requests (search q (ps_run evs))) = [length (requests (ps_run evs))]"
  using in_flight_issue [OF one_pending_ps_run, of evs q] assms
  by (simp add: search_miss)

lemma getSearchResults_miss_aborts_previous:
  assumes "own_or_inherited (cachedResults (el_run evs)) q = None"
  shows "in_flight (fetches (getSearchResults q (el_run evs))) = [length (fetches (el_run evs))]"
  using in_flight_issue [OF one_pending_el_run, of evs q] assms
  by (simp add: getSearchResults_miss setLoading_def)

lemma search_settled_aborted:
  assumes "i < length (requests s)" and "req_status (requests s ! i) = Aborted"
  shows "resultsContainer (search_settled i out s) = resultsContainer s
         \<and> cache (search_settled i out s) = cache s
         \<and> selectedIndex (search_settled i out s) = selectedIndex s"
  using assms by (simp add: search_settled_def Let_def)

lemma getSearchResults_settled_aborted:
  assumes "i < length (fetches s)" and "req_status (fetches s ! i) = Aborted"
  shows "results (getSearchResults_settled i out s) = results s
         \<and> cachedResults (getSearchResults_settled i out s) = cachedResults s
         \<and> open_attr (getSearchResults_settled i out s) = open_attr s"
  using assms by (simp add: getSearchResults_settled_def setLoading_def Let_def)

section \<open>Concrete runs of the search widgets\<close>

lemmas ps_eval =
  own_or_inherited_def Object_prototype_keys_def ps_run_def handleInput_def debounce_fires_def search_def search_settled_def renderResults_def
  ps_modal_init_def trim_def isWhiteSpace_def js_def abort_def Let_def one_hit_def
  products_of_def articles_of_def pages_of_def or_empty_def handleKeydown_def rows_def
  ps_close_def ps_open_def

lemmas el_eval =
  own_or_inherited_def Object_prototype_keys_def el_run_def onChange_def onFocus_def getSearchResults_def getSearchResults_settled_def
  renderSearchResults_def renderError_def el_open_def el_close_def setLoading_def
  ps_element_init_def trim_def isWhiteSpace_def js_def abort_def Let_def one_hit_def
  products_of_def articles_of_def pages_of_def or_empty_def onKeydown_def navigateResults_def
  selectResult_def item_flags_def item_links_def set_flags_def next_index_def

text \<open>
  A query that names a property of \<open>Object.prototype\<close> is taken for a cached one: no
  request is issued and the "no results" state is rendered.
\<close>

lemma search_inherited_key:
  "requests (search (js ''constructor'') ps_modal_init) = []
   \<and> resultsContainer (search (js ''constructor'') ps_modal_init)
       = Markup (empty_markup (js ''constructor''))"
  by (simp add: ps_eval escapeHtml_def escapeUnit_def)

text \<open>
  C1. The claim fails where the new query is served from the cache. Both widgets return
  from the cache branch before they reach the \<open>abort()\<close> call: in the run below the
  request for \<open>abc\<close> is unresolved when \<open>ab\<close> is searched again and found in the
  cache; the request stays pending, and when its answer arrives it is rendered, in the
  modal widget under an input that reads \<open>ab\<close>. The lemmas above show what holds: at
  most one request is pending in every reachable state, a search that misses the cache
  aborts the request before it, and the answer of an aborted request changes neither
  the container nor the cache.
\<close>

theorem search_from_cache_leaves_request_running:
  "req_status
     (requests
        (ps_run [Input (js ''ab''), Debounce_fires, Settles 0 (Ok_json (one_hit (js ''ab''))),
                 Input (js ''abc''), Debounce_fires, Input (js ''ab''), Debounce_fires]) ! 1)
     = Pending
   \<and> resultsContainer
        (ps_run [Input (js ''ab''), Debounce_fires, Settles 0 (Ok_json (one_hit (js ''ab''))),
                 Input (js ''abc''), Debounce_fires, Input (js ''ab''), Debounce_fires,
                 Settles 1 (Ok_json (one_hit (js ''abc'')))])
     = Sections [\<lparr>title = js ''abc'', url = js ''/p''\<rparr>] [] [] (js ''abc'') (js ''ab'')
   \<and> req_status
       (fetches
          (el_run [Typed (js ''ab''), Timer_fires, Fetch_settles 0 (Ok_json (one_hit (js ''ab''))),
                   Typed (js ''abc''), Timer_fires, Typed (js ''ab''), Timer_fires]) ! 1)
     = Pending
   \<and> results
        (el_run [Typed (js ''ab''), Timer_fires, Fetch_settles 0 (Ok_json (one_hit (js ''ab''))),
                 Typed (js ''abc''), Timer_fires, Typed (js ''ab''), Timer_fires,
                 Fetch_settles 1 (Ok_json (one_hit (js ''abc'')))])
     = Some (Items [\<lparr>title = js ''abc'', url = js ''/p''\<rparr>] [] [] [False])"
  by (simp add: ps_eval el_eval)

text \<open>
  C2, as stated, fails for the custom element: \<open>onChange\<close> closes the panel only for an
  empty trimmed value and returns at once for a trimmed value of length 1, so the list
  rendered for \<open>ab\<close> is still shown, and the panel still open, after the input became
  \<open>a\<close>.
\<close>

theorem onChange_one_character_counterexample:
  "length (trim (js ''a'')) < 2
   \<and> results
        (el_run [Typed (js ''ab''), Timer_fires, Fetch_settles 0 (Ok_json (one_hit (js ''ab''))),
                 Typed (js ''a''), Timer_fires])
       = Some (Items [\<lparr>title = js ''ab'', url = js ''/p''\<rparr>] [] [] [False])
   \<and> open_attr
        (el_run [Typed (js ''ab''), Timer_fires, Fetch_settles 0 (Ok_json (one_hit (js ''ab''))),
                 Typed (js ''a''), Timer_fires])"
  by (simp add: el_eval)

text \<open>
  C2, amended. For an input whose trimmed value has length below 2, neither widget issues
  a request. The modal widget cancels its debounce timer and empties its results
  container. The custom element closes its panel and empties its results when the
  trimmed value is empty, and changes nothing when the trimmed value has length 1;
  focusing its input changes nothing either.
\<close>

theorem short_input_no_request:
  assumes "length (trim v) < 2"
  shows "requests (handleInput v s) = requests s
         \<and> debounceTimeout (handleInput v s) = None
         \<and> resultsContainer (handleInput v s) = Markup []
         \<and> fetches (onChange (e\<lparr>input := v\<rparr>)) = fetches e
         \<and> onChange (e\<lparr>input := v\<rparr>)
             = (if trim v = [] then el_close (e\<lparr>input := v\<rparr>) else e\<lparr>input := v\<rparr>)
         \<and> results (el_close (e\<lparr>input := v\<rparr>))
             = map_option (\<lambda>b. Text_markup []) (results e)
         \<and> open_attr (el_close (e\<lparr>input := v\<rparr>)) = False
         \<and> onFocus (e\<lparr>input := v\<rparr>) = e\<lparr>input := v\<rparr>"
  using assms
  by (simp add: handleInput_def onChange_def onFocus_def Let_def el_close_def map_option_case)

theorem short_input_no_request_witness:
  "length (trim (js '' a '')) < 2
   \<and> resultsContainer (handleInput (js '' a '') (ps_run [Input (js ''ab'')])) = Markup []
   \<and> debounceTimeout (handleInput (js '' a '') (ps_run [Input (js ''ab'')])) = None
   \<and> onChange (ps_element_init\<lparr>input := js '' a ''\<rparr>) = ps_element_init\<lparr>input := js '' a ''\<rparr>
   \<and> results (onChange (ps_element_init\<lparr>input := js ''  ''\<rparr>)) = Some (Text_markup [])"
  using short_input_no_request [of "js '' a ''" "ps_run [Input (js ''ab'')]" ps_element_init]
    short_input_no_request [of "js ''  ''" ps_modal_init ps_element_init]
  by (simp add: trim_def isWhiteSpace_def js_def ps_element_init_def)

lemma rows_renderResults:
  "rows (resultsContainer (renderResults d q s)) = products_of d @ articles_of d @ pages_of d"
  by (simp add: renderResults_def rows_def Let_def)

lemma item_links_renderSearchResults:
  "map_option item_links (results (renderSearchResults d e))
     = map_option (\<lambda>b. products_of d @ articles_of d @ pages_of d) (results e)"
  by (simp add: renderSearchResults_def el_open_def item_links_def Let_def split: option.split)

text \<open>
  C3. A query that is a key of the cache is rendered from the cache, and no request is
  issued: the list of requests is the one before the call. What is rendered is read off
  the cached payload itself, property by property: \<open>resources.results\<close> and its
  \<open>products\<close>, \<open>articles\<close> and \<open>pages\<close>, each taken as empty where it is absent. The
  modal widget shows these three lists as its sections, with the query and the value of
  the input, and its "no results" markup when all three are empty. The custom element
  shows them as its items, none of them selected, and its own "no results" markup when
  all three are empty; it renders where it has a results node. The witness caches a
  payload with a product, an article and a page.
\<close>

theorem cached_query_rendered_without_request:
  assumes "cache s q = Some d" and "cachedResults e t = Some r"
  shows "search q s = renderResults d q s
         \<and> requests (search q s) = requests s
         \<and> resultsContainer (search q s)
             = (case resources_results d of
                  None \<Rightarrow> Markup (empty_markup (escapeHtml q))
                | Some x \<Rightarrow>
                    (let ps = (case products x of None \<Rightarrow> [] | Some l \<Rightarrow> l);
                         as = (case articles x of None \<Rightarrow> [] | Some l \<Rightarrow> l);
                         gs = (case pages x of None \<Rightarrow> [] | Some l \<Rightarrow> l)
                     in if ps = [] \<and> as = [] \<and> gs = []
                        then Markup (empty_markup (escapeHtml q))
                        else Sections ps as gs q (input_value s)))
         \<and> getSearchResults t e = renderSearchResults r e
         \<and> fetches (getSearchResults t e) = fetches e
         \<and> results (getSearchResults t e)
             = map_option
                 (\<lambda>b. case resources_results r of
                         None \<Rightarrow> Text_markup (no_results_markup (input e))
                       | Some x \<Rightarrow>
                           (let ps = (case products x of None \<Rightarrow> [] | Some l \<Rightarrow> l);
                                as = (case articles x of None \<Rightarrow> [] | Some l \<Rightarrow> l);
                                gs = (case pages x of None \<Rightarrow> [] | Some l \<Rightarrow> l)
                            in if ps = [] \<and> as = [] \<and> gs = []
                               then Text_markup (no_results_markup (input e))
                               else Items ps as gs
                                      (replicate (length ps + length as + length gs) False)))
                 (results e)"
proof -
  have hit: "own_or_inherited (cache s) q = Some d"
    "own_or_inherited (cachedResults e) t = Some r"
    using assms by (simp_all add: own_or_inherited_def)
  have modal: "resultsContainer (renderResults d q s)
             = (case resources_results d of
                  None \<Rightarrow> Markup (empty_markup (escapeHtml q))
                | Some x \<Rightarrow>
                    (let ps = (case products x of None \<Rightarrow> [] | Some l \<Rightarrow> l);
                         as = (case articles x of None \<Rightarrow> [] | Some l \<Rightarrow> l);
                         gs = (case pages x of None \<Rightarrow> [] | Some l \<Rightarrow> l)
                     in if ps = [] \<and> as = [] \<and> gs = []
                        then Markup (empty_markup (escapeHtml q))
                        else Sections ps as gs q (input_value s)))"
    by (simp add: renderResults_def products_of_def articles_of_def pages_of_def or_empty_def
          Let_def split: option.split)
  have element: "results (renderSearchResults r e)
             = map_option
                 (\<lambda>b. case resources_results r of
                         None \<Rightarrow> Text_markup (no_results_markup (input e))
                       | Some x \<Rightarrow>
                           (let ps = (case products x of None \<Rightarrow> [] | Some l \<Rightarrow> l);
                                as = (case articles x of None \<Rightarrow> [] | Some l \<Rightarrow> l);
                                gs = (case pages x of None \<Rightarrow> [] | Some l \<Rightarrow> l)
                            in if ps = [] \<and> as = [] \<and> gs = []
                               then Text_markup (no_results_markup (input e))
                               else Items ps as gs
                                      (replicate (length ps + length as + length gs) False)))
                 (results e)"
    by (simp add: renderSearchResults_def el_open_def products_of_def articles_of_def
          pages_of_def or_empty_def Let_def split: option.split)
  show ?thesis
    using hit modal element by (simp add: search_hit getSearchResults_hit)
qed

theorem cached_query_rendered_without_request_witness:
  "cache (ps_run [Input (js ''ba''), Debounce_fires, Settles 0 (Ok_json three_hits)]) (js ''ba'')
     = Some three_hits
   \<and> cachedResults (el_run [Typed (js ''ba''), Timer_fires, Fetch_settles 0 (Ok_json three_hits)])
        (js ''ba'') = Some three_hits
   \<and> length (requests
        (search (js ''ba'')
           (ps_run [Input (js ''ba''), Debounce_fires, Settles 0 (Ok_json three_hits)]))) = 1
   \<and> resultsContainer
        (search (js ''ba'')
           (ps_run [Input (js ''ba''), Debounce_fires, Settles 0 (Ok_json three_hits)]))
       = Sections [\<lparr>title = js ''Bar'', url = js ''/products/bar''\<rparr>]
           [\<lparr>title = js ''Bar care'', url = js ''/blogs/news/bar-care''\<rparr>]
           [\<lparr>title = js ''Bar sizes'', url = js ''/pages/bar-sizes''\<rparr>]
           (js ''ba'') (js ''ba'')
   \<and> length (fetches
        (getSearchResults (js ''ba'')
           (el_run [Typed (js ''ba''), Timer_fires, Fetch_settles 0 (Ok_json three_hits)]))) = 1
   \<and> results
        (getSearchResults (js ''ba'')
           (el_run [Typed (js ''ba''), Timer_fires, Fetch_settles 0 (Ok_json three_hits)]))
       = Some (Items [\<lparr>title = js ''Bar'', url = js ''/products/bar''\<rparr>]
                 [\<lparr>title = js ''Bar care'', url = js ''/blogs/news/bar-care''\<rparr>]
                 [\<lparr>title = js ''Bar sizes'', url = js ''/pages/bar-sizes''\<rparr>]
                 [False, False, False])"
  using cached_query_rendered_without_request
    [of "ps_run [Input (js ''ba''), Debounce_fires, Settles 0 (Ok_json three_hits)]"
        "js ''ba''" three_hits
        "el_run [Typed (js ''ba''), Timer_fires, Fetch_settles 0 (Ok_json three_hits)]"
        "js ''ba''" three_hits]
  by (simp add: ps_eval el_eval three_hits_def)

lemma selected_index_bounds:
  "- 1 \<le> selected_index fs \<and> selected_index fs < int (length fs)"
  by (induction fs) auto

lemma selected_index_replicate: "selected_index (replicate n False) = - 1"
  by (induction n) auto

lemma selected_index_single:
  "k < n \<Longrightarrow> selected_index ((replicate n False)[k := True]) = int k"
proof (induction n arbitrary: k)
  case 0
  then show ?case by simp
next
  case (Suc n)
  then show ?case by (cases k) (auto simp: selected_index_replicate)
qed

lemma next_index_range:
  assumes "0 < n" and "- 1 \<le> i" and "i < int n"
  shows "0 \<le> next_index d i n \<and> next_index d i n < int n"
  using assms by (cases d) (auto simp: next_index_def)

lemma navigateResults_wraps:
  assumes "results s = Some b" and "item_flags b \<noteq> []"
  shows "map_option (\<lambda>c. selected_index (item_flags c)) (results (navigateResults d s))
           = Some (next_index d (selected_index (item_flags b)) (length (item_flags b)))"
proof -
  let ?n = "length (item_flags b)"
  let ?i = "next_index d (selected_index (item_flags b)) ?n"
  have n: "0 < ?n" using assms(2) by simp
  have r: "0 \<le> ?i \<and> ?i < int ?n"
    using next_index_range [OF n] selected_index_bounds [of "item_flags b"] by simp
  then have "nat ?i < ?n" by linarith
  then have "selected_index ((replicate ?n False)[nat ?i := True]) = ?i"
    using r by (simp add: selected_index_single)
  moreover obtain ps as gs fs where "b = Items ps as gs fs"
    using assms(2) by (cases b) (auto simp: item_flags_def)
  ultimately show ?thesis
    using assms by (simp add: navigateResults_def Let_def set_flags_def item_flags_def)
qed

lemma renderSearchResults_idle:
  "map_option (\<lambda>c. selected_index (item_flags c)) (results (renderSearchResults d e))
     = map_option (\<lambda>c. - 1) (results e)"
  by (simp add: renderSearchResults_def el_open_def item_flags_def Let_def
        selected_index_replicate split: option.split)

lemma handleKeydown_clamps:
  assumes "rows (resultsContainer s) \<noteq> []"
  shows "selectedIndex (handleKeydown ArrowDown s)
           = min (selectedIndex s + 1) (int (length (rows (resultsContainer s))) - 1)
         \<and> selectedIndex (handleKeydown ArrowUp s) = max (selectedIndex s - 1) (- 1)"
  using assms by (simp add: handleKeydown_def Let_def)

lemma handleKeydown_range:
  assumes "- 1 \<le> selectedIndex s"
    and "selectedIndex s < int (length (rows (resultsContainer s)))"
  shows "- 1 \<le> selectedIndex (handleKeydown k s)
         \<and> selectedIndex (handleKeydown k s) < int (length (rows (resultsContainer (handleKeydown k s))))"
  using assms by (cases k) (auto simp: handleKeydown_def Let_def)

text \<open>
  C9. The key handlers keep the index in range and follow the policy of their widget
  (\<open>handleKeydown_clamps\<close>, \<open>handleKeydown_range\<close>, \<open>navigateResults_wraps\<close>), and
  every render of the custom element leaves no item selected
  (\<open>renderSearchResults_idle\<close>). The modal widget's \<open>renderResults\<close> resets
  \<open>selectedIndex\<close> only on the path that renders rows: the "no results" branch returns
  before the reset. In the run below one row is rendered and selected with ArrowDown,
  then an empty result set is rendered: the index is still 0 with no row left.
\<close>

theorem renderResults_empty_keeps_selectedIndex:
  "selectedIndex
     (ps_run [Input (js ''ab''), Debounce_fires, Settles 0 (Ok_json (one_hit (js ''ab''))),
              Keydown ArrowDown, Input (js ''abq''), Debounce_fires,
              Settles 1 (Ok_json \<lparr>resources_results = None\<rparr>)]) = 0
   \<and> rows (resultsContainer
     (ps_run [Input (js ''ab''), Debounce_fires, Settles 0 (Ok_json (one_hit (js ''ab''))),
              Keydown ArrowDown, Input (js ''abq''), Debounce_fires,
              Settles 1 (Ok_json \<lparr>resources_results = None\<rparr>)])) = []"
  by (simp add: ps_eval)

section \<open>Ranking the recommendations\<close>

lemmas quiz_eval =
  example_quiz_def four_products_def scored_def score_of_def goal_matching_def
  experience_matching_def space_matching_def focus_areas_def available_bonus_def js_def
  getRecommendations_def sort_by_def slice_to_def Let_def

lemma mset_insert_by: "mset (insert_by cmp x ys) = add_mset x (mset ys)"
  by (induction ys) auto

lemma mset_sort_by: "mset (sort_by cmp xs) = mset xs"
  by (induction xs) (auto simp: sort_by_def mset_insert_by)

lemma set_sort_by: "set (sort_by cmp xs) = set xs"
  by (metis mset_sort_by set_mset_mset)

lemma length_sort_by: "length (sort_by cmp xs) = length xs"
  by (metis mset_sort_by size_mset)

lemma sorted_insert_by:
  "sorted_wrt (\<lambda>a b. score b \<le> score a) ys \<Longrightarrow>
     sorted_wrt (\<lambda>a b. score b \<le> score a) (insert_by (\<lambda>a b. score b - score a) x ys)"
proof (induction ys)
  case Nil
  then show ?case by simp
next
  case (Cons y ys)
  have "set (insert_by (\<lambda>a b. score b - score a) x ys) = insert x (set ys)"
    by (metis mset_insert_by set_mset_add_mset_insert set_mset_mset)
  with Cons show ?case by auto
qed

lemma sorted_sort_by:
  "sorted_wrt (\<lambda>a b. score b \<le> score a) (sort_by (\<lambda>a b. score b - score a) xs)"
  by (induction xs) (auto simp: sort_by_def sorted_insert_by)

lemma filter_insert_by:
  "filter (\<lambda>y. score y = k) (insert_by (\<lambda>a b. score b - score a) x ys)
     = (if score x = k then x # filter (\<lambda>y. score y = k) ys else filter (\<lambda>y. score y = k) ys)"
  by (induction ys) auto

lemma sort_by_stable:
  "filter (\<lambda>y. score y = k) (sort_by (\<lambda>a b. score b - score a) xs) = filter (\<lambda>y. score y = k) xs"
  by (induction xs) (auto simp: sort_by_def filter_insert_by)

text \<open>
  C4, as stated, fails for a negative results count. The count is the value of
  \<open>parseInt(this.dataset.resultsCount) || 3\<close>, which lets a negative number through, and
  \<open>slice(0, resultsCount)\<close> then counts from the end of the ranking. With the four
  products of the example and a count of -1, three products score above 0 and the one
  that scores 3 is dropped: the result is not the ranking truncated to any count.
\<close>

theorem getRecommendations_negative_count_counterexample:
  "resultsCount (example_quiz\<lparr>resultsCount := - 1\<rparr>) = - 1
   \<and> map score (filter (\<lambda>p. 0 < score p) (scored (example_quiz\<lparr>resultsCount := - 1\<rparr>)))
       = [5, 8, 3]
   \<and> map score (getRecommendations (example_quiz\<lparr>resultsCount := - 1\<rparr>)) = [8, 5]"
  by (simp add: quiz_eval)

text \<open>What a negative count does: that many products are dropped from the end of the ranking.\<close>

lemma getRecommendations_negative_count:
  assumes "resultsCount q < 0"
  shows "getRecommendations q
           = take (length (filter (\<lambda>p. 0 < score p) (scored q)) - nat (- resultsCount q))
               (sort_by (\<lambda>a b. score b - score a) (filter (\<lambda>p. 0 < score p) (scored q)))"
proof -
  have "nat (int (length (filter (\<lambda>p. 0 < score p) (scored q))) + resultsCount q)
          = length (filter (\<lambda>p. 0 < score p) (scored q)) - nat (- resultsCount q)"
    using assms by linarith
  then show ?thesis
    using assms by (simp add: getRecommendations_def slice_to_def length_sort_by)
qed

text \<open>
  C4, amended. For a results count that is not negative, \<open>getRecommendations\<close> returns the
  first \<open>resultsCount\<close> entries of the ranking of the products that score above 0. The
  ranking is a permutation of those products, in descending order of score, and products
  of equal score keep the order of the quiz data. Every recommendation scores above 0,
  and there are as many as the count allows. The witness is the example of the claim:
  scores 5, 0, 8, 3 and a count of 3 give the products that score 8, 5 and 3, in this
  order.
\<close>

theorem getRecommendations_top_k:
  assumes "0 \<le> resultsCount q"
  shows "getRecommendations q
           = take (nat (resultsCount q))
               (sort_by (\<lambda>a b. score b - score a) (filter (\<lambda>p. 0 < score p) (scored q)))
         \<and> mset (sort_by (\<lambda>a b. score b - score a) (filter (\<lambda>p. 0 < score p) (scored q)))
             = mset (filter (\<lambda>p. 0 < score p) (scored q))
         \<and> filter (\<lambda>p. score p = k)
               (sort_by (\<lambda>a b. score b - score a) (filter (\<lambda>p. 0 < score p) (scored q)))
             = filter (\<lambda>p. score p = k) (filter (\<lambda>p. 0 < score p) (scored q))
         \<and> sorted_wrt (\<lambda>a b. score b \<le> score a) (getRecommendations q)
         \<and> list_all (\<lambda>p. 0 < score p) (getRecommendations q)
         \<and> length (getRecommendations q)
             = min (nat (resultsCount q)) (length (filter (\<lambda>p. 0 < score p) (scored q)))"
proof -
  let ?pos = "filter (\<lambda>p. 0 < score p) (scored q)"
  let ?ranked = "sort_by (\<lambda>a b. score b - score a) ?pos"
  have eq: "getRecommendations q = take (nat (resultsCount q)) ?ranked"
    using assms by (simp add: getRecommendations_def slice_to_def)
  have srt: "sorted_wrt (\<lambda>a b. score b \<le> score a) (take (nat (resultsCount q)) ?ranked)"
    using sorted_sort_by by (rule sorted_wrt_take)
  have "set (take (nat (resultsCount q)) ?ranked) \<subseteq> set ?pos"
    using set_take_subset [of "nat (resultsCount q)" ?ranked] by (simp add: set_sort_by)
  then have pos: "list_all (\<lambda>p. 0 < score p) (take (nat (resultsCount q)) ?ranked)"
    by (auto simp: list_all_iff)
  show ?thesis
    using srt pos by (simp add: eq mset_sort_by sort_by_stable length_sort_by)
qed

theorem getRecommendations_top_k_witness:
  "0 \<le> resultsCount example_quiz
   \<and> map score (scored example_quiz) = [5, 0, 8, 3]
   \<and> map score (getRecommendations example_quiz) = [8, 5, 3]
   \<and> map (\<lambda>r. handle (product r)) (getRecommendations example_quiz)
       = [js ''bands'', js ''rack'', js ''rope'']"
  using getRecommendations_top_k [of example_quiz 5]
  by (simp add: quiz_eval)

section \<open>The score and its components\<close>

lemma fold_focus:
  "fold (\<lambda>f sc. if P f then sc + 4 else sc) fs s = s + 4 * int (length (filter P fs))"
  by (induction fs arbitrary: s) auto

lemma goal_matching_add: "goal_matching a p s = s + goal_matching a p 0"
  by (simp add: goal_matching_def Let_def split: option.split)

lemma experience_matching_add: "experience_matching a p s = s + experience_matching a p 0"
  by (simp add: experience_matching_def Let_def split: option.split)

lemma space_matching_add: "space_matching a p s = s + space_matching a p 0"
  by (simp add: space_matching_def Let_def split: option.split)

lemma focus_areas_add: "focus_areas a p s = s + focus_areas a p 0"
  by (simp add: focus_areas_def fold_focus split: option.split)

lemma available_bonus_add: "available_bonus p s = s + available_bonus p 0"
  by (simp add: available_bonus_def)

lemma score_of_sum:
  "score_of a p = goal_matching a p 0 + experience_matching a p 0 + space_matching a p 0
                  + focus_areas a p 0 + available_bonus p 0"
  unfolding score_of_def
  using available_bonus_add [of p "focus_areas a p (space_matching a p (experience_matching a p (goal_matching a p 0)))"]
    focus_areas_add [of a p "space_matching a p (experience_matching a p (goal_matching a p 0))"]
    space_matching_add [of a p "experience_matching a p (goal_matching a p 0)"]
    experience_matching_add [of a p "goal_matching a p 0"]
  by linarith

text \<open>Which answers and which properties of the product a block reads.\<close>

lemma goal_matching_reads:
  "goal_matching (a\<lparr>experience := e\<rparr>) p s = goal_matching a p s"
  "goal_matching (a\<lparr>space := sp\<rparr>) p s = goal_matching a p s"
  "goal_matching (a\<lparr>focus := fo\<rparr>) p s = goal_matching a p s"
  "goal_matching a (p\<lparr>available := b\<rparr>) s = goal_matching a p s"
  "goal_matching a (p\<lparr>quiz_experience_level := l\<rparr>) s = goal_matching a p s"
  "goal_matching a (p\<lparr>quiz_space_required := r\<rparr>) s = goal_matching a p s"
  by (simp_all add: goal_matching_def Let_def split: option.split)

lemma experience_matching_reads:
  "experience_matching (a\<lparr>goal := go\<rparr>) p s = experience_matching a p s"
  "experience_matching (a\<lparr>space := sp\<rparr>) p s = experience_matching a p s"
  "experience_matching (a\<lparr>focus := fo\<rparr>) p s = experience_matching a p s"
  "experience_matching a (p\<lparr>available := b\<rparr>) s = experience_matching a p s"
  "experience_matching a (p\<lparr>tags := ts\<rparr>) s = experience_matching a p s"
  "experience_matching a (p\<lparr>quiz_score := m\<rparr>) s = experience_matching a p s"
  "experience_matching a (p\<lparr>quiz_space_required := r\<rparr>) s = experience_matching a p s"
  by (simp_all add: experience_matching_def Let_def split: option.split)

lemma space_matching_reads:
  "space_matching (a\<lparr>goal := go\<rparr>) p s = space_matching a p s"
  "space_matching (a\<lparr>experience := e\<rparr>) p s = space_matching a p s"
  "space_matching (a\<lparr>focus := fo\<rparr>) p s = space_matching a p s"
  "space_matching a (p\<lparr>available := b\<rparr>) s = space_matching a p s"
  "space_matching a (p\<lparr>tags := ts\<rparr>) s = space_matching a p s"
  "space_matching a (p\<lparr>quiz_score := m\<rparr>) s = space_matching a p s"
  "space_matching a (p\<lparr>quiz_experience_level := l\<rparr>) s = space_matching a p s"
  by (simp_all add: space_matching_def Let_def split: option.split)

lemma focus_areas_reads:
  "focus_areas (a\<lparr>goal := go\<rparr>) p s = focus_areas a p s"
  "focus_areas (a\<lparr>experience := e\<rparr>) p s = focus_areas a p s"
  "focus_areas (a\<lparr>space := sp\<rparr>) p s = focus_areas a p s"
  "focus_areas a (p\<lparr>available := b\<rparr>) s = focus_areas a p s"
  "focus_areas a (p\<lparr>quiz_score := m\<rparr>) s = focus_areas a p s"
  "focus_areas a (p\<lparr>quiz_experience_level := l\<rparr>) s = focus_areas a p s"
  "focus_areas a (p\<lparr>quiz_space_required := r\<rparr>) s = focus_areas a p s"
  by (simp_all add: focus_areas_def Let_def split: option.split)

lemma available_bonus_reads:
  "available_bonus (p\<lparr>tags := ts\<rparr>) s = available_bonus p s"
  "available_bonus (p\<lparr>quiz_score := m\<rparr>) s = available_bonus p s"
  "available_bonus (p\<lparr>quiz_experience_level := l\<rparr>) s = available_bonus p s"
  "available_bonus (p\<lparr>quiz_space_required := r\<rparr>) s = available_bonus p s"
  by (simp_all add: available_bonus_def)

lemmas block_reads =
  goal_matching_reads experience_matching_reads space_matching_reads focus_areas_reads
  available_bonus_reads

lemma experience_matching_nonneg: "0 \<le> experience_matching a p 0"
  by (simp add: experience_matching_def Let_def split: option.split)

lemma space_matching_nonneg: "0 \<le> space_matching a p 0"
  by (simp add: space_matching_def Let_def split: option.split)

lemma focus_areas_nonneg: "0 \<le> focus_areas a p 0"
  by (simp add: focus_areas_def fold_focus split: option.split)

lemma goal_matching_nonneg: "0 \<le> goal_metafield a p \<Longrightarrow> 0 \<le> goal_matching a p 0"
  by (auto simp: goal_matching_def goal_metafield_def Let_def split: option.splits)

lemma focus_areas_more_tags:
  "focus_areas a p 0 \<le> focus_areas a (p\<lparr>tags := t # tags p\<rparr>) 0"
proof (cases "focus a")
  case None
  then show ?thesis by (simp add: focus_areas_def)
next
  case (Some fs)
  have "length (filter (\<lambda>f. f \<in> set (tags p)) fs)
          \<le> length (filter (\<lambda>f. f = t \<or> f \<in> set (tags p)) fs)"
    by (induction fs) auto
  with Some show ?thesis by (simp add: focus_areas_def fold_focus)
qed

lemma goal_matching_more_tags:
  "goal_matching a p 0 \<le> goal_matching a (p\<lparr>tags := t # tags p\<rparr>) 0"
  by (simp add: goal_matching_def Let_def split: option.split)

lemma focus_areas_more_focus:
  "focus_areas (a\<lparr>focus := Some fs\<rparr>) p 0 \<le> focus_areas (a\<lparr>focus := Some (f # fs)\<rparr>) p 0"
  by (simp add: focus_areas_def fold_focus)

lemma goal_matching_metafield:
  "0 \<le> n \<Longrightarrow>
     goal_matching a (p\<lparr>quiz_score := (quiz_score p)(g := None)\<rparr>) 0
       \<le> goal_matching a (p\<lparr>quiz_score := (quiz_score p)(g \<mapsto> n)\<rparr>) 0"
  by (simp add: goal_matching_def Let_def split: option.split)

text \<open>
  C5, as stated, fails for the goal metafield: its value is multiplied by 3 and added
  whatever its sign. With a metafield of -1 for the chosen goal the product scores -3;
  without the goal answer, or without the metafield, it scores 0.
\<close>

theorem score_of_negative_metafield_counterexample:
  "score_of strength_answers (strength_product (- 1)) = - 3
   \<and> score_of (strength_answers\<lparr>goal := None\<rparr>) (strength_product (- 1)) = 0
   \<and> score_of strength_answers
        ((strength_product (- 1))\<lparr>quiz_score := (quiz_score (strength_product (- 1)))(js ''strength'' := None)\<rparr>) = 0"
  by (simp add: score_of_def goal_matching_def experience_matching_def space_matching_def
        focus_areas_def available_bonus_def strength_product_def strength_answers_def js_def)

text \<open>
  C5, amended. For a fixed product and fixed other answers, a rule component that comes
  to match never lowers the score: the product becoming available, one more tag on the
  product, one more selected focus area or the focus answer itself, the experience
  answer or the product's experience level, the space answer or the product's space
  requirement; and the goal answer or the goal metafield, provided the value of the
  goal metafield is not negative.
\<close>

theorem score_monotone:
  "score_of a (p\<lparr>available := False\<rparr>) \<le> score_of a (p\<lparr>available := True\<rparr>)
   \<and> score_of a p \<le> score_of a (p\<lparr>tags := t # tags p\<rparr>)
   \<and> score_of (a\<lparr>focus := Some fs\<rparr>) p \<le> score_of (a\<lparr>focus := Some (f # fs)\<rparr>) p
   \<and> score_of (a\<lparr>focus := None\<rparr>) p \<le> score_of a p
   \<and> score_of (a\<lparr>experience := None\<rparr>) p \<le> score_of a p
   \<and> score_of a (p\<lparr>quiz_experience_level := None\<rparr>) \<le> score_of a p
   \<and> score_of (a\<lparr>space := None\<rparr>) p \<le> score_of a p
   \<and> score_of a (p\<lparr>quiz_space_required := None\<rparr>) \<le> score_of a p
   \<and> (0 \<le> goal_metafield a p \<longrightarrow> score_of (a\<lparr>goal := None\<rparr>) p \<le> score_of a p)
   \<and> (0 \<le> n \<longrightarrow>
        score_of a (p\<lparr>quiz_score := (quiz_score p)(g := None)\<rparr>)
          \<le> score_of a (p\<lparr>quiz_score := (quiz_score p)(g \<mapsto> n)\<rparr>))"
proof -
  have c1: "score_of a (p\<lparr>available := False\<rparr>) \<le> score_of a (p\<lparr>available := True\<rparr>)"
    by (simp add: score_of_sum block_reads) (simp add: available_bonus_def)
  have c2: "score_of a p \<le> score_of a (p\<lparr>tags := t # tags p\<rparr>)"
    using goal_matching_more_tags [of a p t] focus_areas_more_tags [of a p t]
    by (simp add: score_of_sum block_reads)
  have c3: "score_of (a\<lparr>focus := Some fs\<rparr>) p \<le> score_of (a\<lparr>focus := Some (f # fs)\<rparr>) p"
    using focus_areas_more_focus by (simp add: score_of_sum block_reads)
  have c4: "score_of (a\<lparr>focus := None\<rparr>) p \<le> score_of a p"
    using focus_areas_nonneg [of a p]
    by (simp add: score_of_sum block_reads) (simp add: focus_areas_def)
  have c5: "score_of (a\<lparr>experience := None\<rparr>) p \<le> score_of a p"
    using experience_matching_nonneg [of a p]
    by (simp add: score_of_sum block_reads) (simp add: experience_matching_def)
  have c6: "score_of a (p\<lparr>quiz_experience_level := None\<rparr>) \<le> score_of a p"
    using experience_matching_nonneg [of a p]
    by (simp add: score_of_sum block_reads)
      (simp add: experience_matching_def Let_def split: option.split)
  have c7: "score_of (a\<lparr>space := None\<rparr>) p \<le> score_of a p"
    using space_matching_nonneg [of a p]
    by (simp add: score_of_sum block_reads) (simp add: space_matching_def)
  have c8: "score_of a (p\<lparr>quiz_space_required := None\<rparr>) \<le> score_of a p"
    using space_matching_nonneg [of a p]
    by (simp add: score_of_sum block_reads)
      (simp add: space_matching_def Let_def split: option.split)
  have c9: "0 \<le> goal_metafield a p \<longrightarrow> score_of (a\<lparr>goal := None\<rparr>) p \<le> score_of a p"
    using goal_matching_nonneg [of a p]
    by (simp add: score_of_sum block_reads) (simp add: goal_matching_def)
  have c10: "0 \<le> n \<longrightarrow>
        score_of a (p\<lparr>quiz_score := (quiz_score p)(g := None)\<rparr>)
          \<le> score_of a (p\<lparr>quiz_score := (quiz_score p)(g \<mapsto> n)\<rparr>)"
    using goal_matching_metafield by (simp add: score_of_sum block_reads)
  show ?thesis using c1 c2 c3 c4 c5 c6 c7 c8 c9 c10 by blast
qed

theorem score_monotone_witness:
  "0 \<le> goal_metafield strength_answers (strength_product 4) \<and> (0::int) \<le> 4
   \<and> score_of (strength_answers\<lparr>goal := None\<rparr>) (strength_product 4) = 0
   \<and> score_of strength_answers (strength_product 4) = 12
   \<and> score_of strength_answers ((strength_product 4)\<lparr>available := True\<rparr>) = 14
   \<and> score_of strength_answers
        ((strength_product 4)\<lparr>tags := js ''strength'' # tags (strength_product 4)\<rparr>) = 22
   \<and> score_of (strength_answers\<lparr>goal := None\<rparr>) (strength_product 4)
        \<le> score_of strength_answers (strength_product 4)"
  using score_monotone [where a = strength_answers and p = "strength_product 4" and n = 4
      and g = "js ''strength''" and t = "js ''strength''" and fs = "[]" and f = "js ''core''"]
  by (simp add: score_of_def goal_matching_def experience_matching_def space_matching_def
        focus_areas_def available_bonus_def strength_product_def strength_answers_def js_def
        goal_metafield_def)


section \<open>Rounding to a double\<close>





lemma binade_eqI:
  assumes "2 powi e \<le> \<bar>x\<bar>" and "\<bar>x\<bar> < 2 powi (e + 1)"
  shows "binade x = e"
proof -
  have "0 < (2::real) powi e" by simp
  then have "0 < \<bar>x\<bar>" using assms(1) by linarith
  moreover have "2 powr real_of_int e \<le> \<bar>x\<bar> \<and> \<bar>x\<bar> < 2 powr real_of_int (e + 1)"
    using assms by (simp only: powr_real_of_int' [of 2, simplified])
  ultimately show ?thesis
    using floor_log_eq_powr_iff [of "\<bar>x\<bar>" 2 e] by (simp add: binade_def)
qed








lemma to_double_value:
  assumes "0 < x" and "2 powi e \<le> x" and "x < 2 powi (e + 1)"
  shows "to_double x = of_int (round_half_even (x / 2 powi (e - 52))) * 2 powi (e - 52)"
proof -
  have "binade x = e" using assms by (intro binade_eqI) simp_all
  then show ?thesis using assms(1) by (simp add: to_double_def)
qed






lemma to_double_23_40: "to_double (23 / 40) = 5179139571476070 / 2 ^ 53"
  using to_double_value [of "23 / 40" "- 1"]
  by (simp add: round_half_even_def)










text \<open>
  The quotient of 23 and 40 is not a double, and the double next to it lies below it:
  a score of 23 against a largest score of 40 shows 57 percent, where exact arithmetic
  would round 57.5 up to 58.
\<close>

lemma matchPercent_23_40: "matchPercent 23 40 = 57"
proof -
  have a: "to_double (23 / 40) * 100 = 64739244643450875 / 1125899906842624"
    by (simp add: to_double_23_40)
  have b: "to_double (64739244643450875 / 1125899906842624) = 8092405580431359 / 2 ^ 47"
    using to_double_value [of "64739244643450875 / 1125899906842624" 5]
    by (simp add: round_half_even_def)
  have "matchPercent 23 40 = Math_round (to_double (to_double (23 / 40) * 100))"
    by (simp add: matchPercent_def)
  also have "\<dots> = Math_round (to_double (64739244643450875 / 1125899906842624))"
    by (simp only: a)
  also have "\<dots> = Math_round (8092405580431359 / 2 ^ 47)"
    by (simp only: b)
  also have "\<dots> = 57"
    by (simp add: Math_round_def)
  finally show ?thesis .
qed

section \<open>The match percentage\<close>





section \<open>The stored quote items\<close>

lemmas quote_eval =
  addItem_def saveItems_def new_QuoteSystem_def loadItems_def JSON_stringify_def
  item_properties_def defined_property_def item_of_object_def property_def dataset_def
  toString_def bar_button_def mat_button_def js_def Let_def removeItem_def
  convertCartToQuote_def convert_line_def handleSubmit_def quote_run_def no_duplicates_def

lemma property_filter_defined:
  "distinct (map fst ps) \<Longrightarrow> property (filter defined_property ps) k = property ps k"
proof (induction ps)
  case Nil
  then show ?case by simp
next
  case (Cons kv ps)
  obtain k' v' where kv: "kv = (k', v')" by (cases kv)
  show ?case
  proof (cases "defined_property kv")
    case True
    then show ?thesis using Cons by (simp add: property_def kv)
  next
    case False
    then have v': "v' = Undefined" by (cases v') (simp_all add: defined_property_def kv)
    have "k' \<notin> fst ` set ps" using Cons.prems by (simp add: kv)
    then have "map_of ps k' = None" by (simp add: map_of_eq_None_iff)
    then show ?thesis using Cons False v' by (simp add: property_def kv)
  qed
qed

lemma distinct_item_properties: "distinct (map fst (item_properties i))"
  by (simp add: item_properties_def js_def)

lemma item_of_object_stringified:
  "item_of_object (filter defined_property (item_properties i)) = i"
  unfolding item_of_object_def
  by (simp add: property_filter_defined [OF distinct_item_properties])
    (simp add: item_properties_def property_def js_def)

lemma loadItems_stringify: "loadItems (Some (JSON_stringify xs)) = xs"
  by (simp add: loadItems_def JSON_stringify_def o_def item_of_object_stringified)

lemma loadItems_saveItems: "loadItems (quoteItems (saveItems s)) = items s"
  by (simp add: saveItems_def loadItems_stringify)

lemma items_saveItems [simp]: "items (saveItems s) = items s"
  by (simp add: saveItems_def)

lemma in_step_new: "in_step (new_QuoteSystem st)"
  by (simp add: in_step_def new_QuoteSystem_def)

lemma in_step_saveItems: "in_step (saveItems s)"
  by (simp add: in_step_def loadItems_saveItems)

lemma in_step_addItem: "in_step s \<Longrightarrow> in_step (addItem now button s)"
  by (simp add: addItem_def Let_def in_step_saveItems)

lemma in_step_clicks:
  "in_step s \<Longrightarrow> in_step (foldl (\<lambda>s c. addItem (fst c) (snd c) s) s clicks)"
  by (induction clicks arbitrary: s) (simp_all add: in_step_addItem)

text \<open>
  C6. After any sequence of clicks on quote buttons, on a page whose constructor found
  any stored value, \<open>loadItems\<close> on what \<open>localStorage\<close> then holds returns the list of
  items in memory, in the same order: the list that the last \<open>saveItems\<close> of \<open>addItem\<close>
  wrote, or the list that was loaded when no click has added an item.
\<close>

theorem addItem_loadItems_round_trip:
  "loadItems (quoteItems (foldl (\<lambda>s c. addItem (fst c) (snd c) s) (new_QuoteSystem st) clicks))
     = items (foldl (\<lambda>s c. addItem (fst c) (snd c) s) (new_QuoteSystem st) clicks)"
  using in_step_clicks [OF in_step_new] by (simp add: in_step_def)

theorem addItem_loadItems_round_trip_witness:
  "loadItems (quoteItems
      (foldl (\<lambda>s c. addItem (fst c) (snd c) s) (new_QuoteSystem None)
         [(7, bar_button), (8, mat_button), (9, bar_button)]))
     = [\<lparr>item_id = Str (js ''7''), productId = Str (js ''71''), productTitle = Str (js ''Bar Pro''),
         productHandle = Str (js ''bar''), productImage = Undefined, variantId = Str (js ''9''),
         variantTitle = Undefined, variantPrice = Str (js ''$10.00''), quantity = Undefined\<rparr>,
        \<lparr>item_id = Str (js ''8''), productId = Str (js ''72''), productTitle = Str (js ''Mat''),
         productHandle = Str (js ''mat''), productImage = Undefined, variantId = Undefined,
         variantTitle = Undefined, variantPrice = Undefined, quantity = Undefined\<rparr>]"
  using addItem_loadItems_round_trip [of None "[(7, bar_button), (8, mat_button), (9, bar_button)]"]
  by (simp add: quote_eval)

lemma find_None: "(find P xs = None) = (\<forall>x \<in> set xs. \<not> P x)"
  by (auto simp: find_None_iff)

lemma no_duplicates_snoc:
  "no_duplicates (xs @ [x]) =
     (no_duplicates xs \<and> (\<forall>i \<in> set xs. \<not> (productId i = productId x \<and> variantId i = variantId x)))"
  by (auto simp: no_duplicates_def image_iff)

lemma no_duplicates_addItem:
  "no_duplicates (items s) \<Longrightarrow> no_duplicates (items (addItem now button s))"
  by (simp add: addItem_def Let_def no_duplicates_snoc find_None)

lemma no_duplicates_convert_line:
  "no_duplicates xs \<Longrightarrow> no_duplicates (convert_line formatMoney xs item)"
  by (simp add: convert_line_def Let_def no_duplicates_snoc find_None)

lemma no_duplicates_convert_lines:
  "no_duplicates xs \<Longrightarrow> no_duplicates (foldl (convert_line formatMoney) xs lines)"
  by (induction lines arbitrary: xs) (simp_all add: no_duplicates_convert_line)

lemma no_duplicates_convertCartToQuote:
  "no_duplicates (items s) \<Longrightarrow> no_duplicates (items (convertCartToQuote formatMoney cart s))"
  by (simp add: convertCartToQuote_def no_duplicates_convert_lines split: option.split)

lemma no_duplicates_removeItem:
  "no_duplicates (items s) \<Longrightarrow> no_duplicates (items (removeItem itemId s))"
  by (simp add: removeItem_def no_duplicates_def distinct_map_filter)

lemma no_duplicates_handleSubmit: "no_duplicates (items (handleSubmit s))"
  by (simp add: handleSubmit_def no_duplicates_def)

lemma stored_clean_saveItems:
  "no_duplicates (items s) \<Longrightarrow> stored_clean (saveItems s)"
  by (simp add: stored_clean_def loadItems_saveItems)

lemma stored_clean_step:
  assumes "stored_clean s"
  shows "stored_clean (quote_step formatMoney s e)"
proof (cases e)
  case (Quote_click now button)
  have "stored_clean (addItem now button s)"
    using assms stored_clean_saveItems [of "s\<lparr>items := items s @ [x]\<rparr>" for x]
      no_duplicates_addItem [of s now button]
    by (auto simp: addItem_def Let_def stored_clean_def)
  then show ?thesis using Quote_click by (simp add: stored_clean_def)
next
  case (Remove_click itemId)
  then show ?thesis
    using assms no_duplicates_removeItem [of s itemId]
    by (simp add: stored_clean_def removeItem_def loadItems_saveItems)
next
  case (Cart_answers cart)
  then show ?thesis
    using assms no_duplicates_convertCartToQuote [of s formatMoney cart]
    by (cases cart) (simp_all add: stored_clean_def convertCartToQuote_def loadItems_saveItems)
next
  case Form_submitted
  then show ?thesis
    by (simp add: stored_clean_def handleSubmit_def loadItems_saveItems no_duplicates_def)
next
  case Page_loaded
  then show ?thesis using assms by (simp add: stored_clean_def new_QuoteSystem_def)
qed

lemma stored_clean_foldl:
  "stored_clean s \<Longrightarrow> stored_clean (foldl (quote_step formatMoney) s evs)"
  by (induction evs arbitrary: s) (simp_all add: stored_clean_step)

lemma no_duplicates_quote_run_from:
  assumes "no_duplicates (loadItems st)"
  shows "no_duplicates (items (quote_run formatMoney st evs))"
proof -
  have "stored_clean (new_QuoteSystem st)"
    using assms by (simp add: stored_clean_def new_QuoteSystem_def)
  then show ?thesis
    unfolding quote_run_def using stored_clean_foldl stored_clean_def by blast
qed

lemma no_duplicates_quote_run: "no_duplicates (items (quote_run formatMoney None evs))"
proof -
  have "stored_clean (new_QuoteSystem None)"
    by (simp add: stored_clean_def new_QuoteSystem_def loadItems_def no_duplicates_def)
  then show ?thesis
    unfolding quote_run_def using stored_clean_foldl stored_clean_def by blast
qed

text \<open>
  C10. No two items of the quote list have the same productId and variantId: a list
  without such a pair is still without one after \<open>addItem\<close>, \<open>removeItem\<close>,
  \<open>convertCartToQuote\<close> and the clearing of \<open>handleSubmit\<close>, and so is the list after any
  run of the widget that starts with nothing stored, page loads included. \<open>addItem\<close> and
  the loop of \<open>convertCartToQuote\<close> leave the list as it is when an item with the same
  productId and variantId is in it.
\<close>

theorem quote_items_no_duplicates:
  assumes "no_duplicates (items s)"
  shows "no_duplicates (items (addItem now button s))
         \<and> no_duplicates (items (removeItem itemId s))
         \<and> no_duplicates (items (convertCartToQuote formatMoney cart s))
         \<and> no_duplicates (items (handleSubmit s))
         \<and> no_duplicates (items (quote_run formatMoney None evs))
         \<and> (list_ex (\<lambda>i. productId i = dataset (data_productId button)
                          \<and> variantId i = dataset (data_variantId button)) (items s)
            \<longrightarrow> items (addItem now button s) = items s)
         \<and> (list_ex (\<lambda>i. productId i = Str (toString (product_id line))
                          \<and> variantId i = Str (toString (variant_id line))) xs
            \<longrightarrow> convert_line formatMoney xs line = xs)"
proof -
  have a: "list_ex (\<lambda>i. productId i = dataset (data_productId button)
                          \<and> variantId i = dataset (data_variantId button)) (items s)
            \<longrightarrow> items (addItem now button s) = items s"
    by (auto simp: addItem_def Let_def find_None list_ex_iff)
  have c: "list_ex (\<lambda>i. productId i = Str (toString (product_id line))
                          \<and> variantId i = Str (toString (variant_id line))) xs
            \<longrightarrow> convert_line formatMoney xs line = xs"
    by (auto simp: convert_line_def Let_def find_None list_ex_iff)
  show ?thesis
    using assms a c
    by (simp add: no_duplicates_addItem no_duplicates_removeItem no_duplicates_convertCartToQuote
          no_duplicates_handleSubmit no_duplicates_quote_run)
qed

theorem quote_items_no_duplicates_witness:
  "no_duplicates (items (addItem 7 bar_button (new_QuoteSystem None)))
   \<and> list_ex (\<lambda>i. productId i = dataset (data_productId bar_button)
                   \<and> variantId i = dataset (data_variantId bar_button))
        (items (addItem 7 bar_button (new_QuoteSystem None)))
   \<and> length (items (addItem 9 bar_button (addItem 7 bar_button (new_QuoteSystem None)))) = 1
   \<and> length (items (addItem 9 mat_button (addItem 7 bar_button (new_QuoteSystem None)))) = 2
   \<and> no_duplicates (items (addItem 9 mat_button (addItem 7 bar_button (new_QuoteSystem None))))
   \<and> list_ex (\<lambda>i. productId i = Str (toString (product_id
                 \<lparr>product_id = 71, variant_id = 9, product_title = Str (js ''Bar Pro''),
                  line_handle = Str (js ''bar''), image = Null, variant_title = Null,
                  price = 1000, line_quantity = Num 2, visited_at = 11\<rparr>))
               \<and> variantId i = Str (toString (variant_id
                 \<lparr>product_id = 71, variant_id = 9, product_title = Str (js ''Bar Pro''),
                  line_handle = Str (js ''bar''), image = Null, variant_title = Null,
                  price = 1000, line_quantity = Num 2, visited_at = 11\<rparr>)))
        (items (addItem 7 bar_button (new_QuoteSystem None)))
   \<and> length (items (convertCartToQuote (\<lambda>cents. js ''$10.00'')
        (Some [\<lparr>product_id = 71, variant_id = 9, product_title = Str (js ''Bar Pro''),
                 line_handle = Str (js ''bar''), image = Null, variant_title = Null,
                 price = 1000, line_quantity = Num 2, visited_at = 11\<rparr>,
                \<lparr>product_id = 73, variant_id = 5, product_title = Str (js ''Rope''),
                 line_handle = Str (js ''rope''), image = Null, variant_title = Null,
                 price = 1000, line_quantity = Num 1, visited_at = 11\<rparr>,
                \<lparr>product_id = 73, variant_id = 5, product_title = Str (js ''Rope''),
                 line_handle = Str (js ''rope''), image = Null, variant_title = Null,
                 price = 1000, line_quantity = Num 4, visited_at = 12\<rparr>])
        (addItem 7 bar_button (new_QuoteSystem None)))) = 2"
  using quote_items_no_duplicates
    [where s = "addItem 7 bar_button (new_QuoteSystem None)" and now = 9 and button = bar_button
       and xs = "items (addItem 7 bar_button (new_QuoteSystem None))"
       and line = "\<lparr>product_id = 71, variant_id = 9, product_title = Str (js ''Bar Pro''),
                  line_handle = Str (js ''bar''), image = Null, variant_title = Null,
                  price = 1000, line_quantity = Num 2, visited_at = 11\<rparr>"
       and formatMoney = "\<lambda>cents. js ''$10.00''"]
  by (simp add: quote_eval)

section \<open>Rendering an empty result set\<close>

lemma decodeText_escapeUnit: "decodeText (escapeUnit c @ rest) = c # decodeText rest"
  by (simp add: escapeUnit_def js_def)

lemma decodeText_escapeHtml: "decodeText (escapeHtml q) = q"
  by (induction q) (simp_all add: escapeHtml_def decodeText_escapeUnit)

lemma escapeUnit_no_angle: "0x3C \<notin> set (escapeUnit c) \<and> 0x3E \<notin> set (escapeUnit c)"
  by (simp add: escapeUnit_def js_def)

lemma escapeHtml_no_angle: "0x3C \<notin> set (escapeHtml q) \<and> 0x3E \<notin> set (escapeHtml q)"
  using escapeUnit_no_angle by (auto simp: escapeHtml_def)

text \<open>
  C7. A payload without \<open>resources.results\<close>, or one whose \<open>products\<close>, \<open>articles\<close> and
  \<open>pages\<close> are each absent or empty, makes \<open>renderResults\<close> of the modal widget fill the
  results container with the "no results" markup, in which the escaped query stands
  between \<open><strong>\<close> and \<open></strong>\<close>. The escaped query holds no \<open><\<close> and no \<open>>\<close>, so
  no tag can start in it, and read back as text it is the query itself. The witness is
  the query \<open><b>\<close>.
\<close>

theorem renderResults_empty_escaped:
  assumes "po = None \<or> po = Some []" and "ao = None \<or> ao = Some []"
    and "go = None \<or> go = Some []"
    and "data = \<lparr>resources_results = None\<rparr>
         \<or> data = \<lparr>resources_results = Some \<lparr>products = po, articles = ao, pages = go\<rparr>\<rparr>"
  shows \<open>resultsContainer (renderResults data query s)
           = Markup
               (js ''\<newline>          <div class="search-results__empty">\<newline>''
                @ js ''            <p>No results found for "<strong>''
                @ escapeHtml query
                @ js ''</strong>"</p>\<newline>''
                @ js ''            <p class="search-results__empty-hint">''
                @ js ''Try different keywords or browse our collections</p>\<newline>''
                @ js ''          </div>\<newline>        '')
         \<and> 0x3C \<notin> set (escapeHtml query) \<and> 0x3E \<notin> set (escapeHtml query)
         \<and> decodeText (escapeHtml query) = query\<close>
proof -
  have "products_of data = []" and "articles_of data = []" and "pages_of data = []"
    using assms by (auto simp: products_of_def articles_of_def pages_of_def or_empty_def)
  then show ?thesis
    using escapeHtml_no_angle [of query]
    by (simp add: renderResults_def empty_markup_def decodeText_escapeHtml)
qed

theorem renderResults_empty_escaped_witness:
  \<open>resultsContainer
     (renderResults \<lparr>resources_results = Some \<lparr>products = Some [], articles = None, pages = Some []\<rparr>\<rparr>
        (js ''<b>'') ps_modal_init)
     = Markup
         (js ''\<newline>          <div class="search-results__empty">\<newline>''
          @ js ''            <p>No results found for "<strong>&lt;b&gt;</strong>"</p>\<newline>''
          @ js ''            <p class="search-results__empty-hint">''
          @ js ''Try different keywords or browse our collections</p>\<newline>''
          @ js ''          </div>\<newline>        '')
   \<and> 0x3C \<notin> set (js ''&lt;b&gt;'') \<and> 0x3E \<notin> set (js ''&lt;b&gt;'')
   \<and> decodeText (js ''&lt;b&gt;'') = js ''<b>''\<close>
  using renderResults_empty_escaped
    [of "Some []" None "Some []"
        "\<lparr>resources_results = Some \<lparr>products = Some [], articles = None, pages = Some []\<rparr>\<rparr>"
        "js ''<b>''" ps_modal_init]
  by (simp add: escapeHtml_def escapeUnit_def js_def)

text \<open>
  The custom element, which the claim does not cite, renders its "no results" state
  around the value of the input as it is, neither trimmed nor escaped.
\<close>

lemma renderSearchResults_empty_raw:
  assumes "products_of data = []" and "articles_of data = []" and "pages_of data = []"
    and "results e = Some b"
  shows "results (renderSearchResults data e) = Some (Text_markup (no_results_markup (input e)))"
  using assms by (simp add: renderSearchResults_def el_open_def Let_def)


end
